theory Spec2Isabelle
  imports Main "HOL-Library.Sublist" "HOL-Library.AList" "HOL-Library.FSet"
    "HOL-Library.Char_ord" "HOL-Library.List_Lexorder"
begin

section \<open>Python values used by the scripts\<close>

text \<open>
  Text is a \<open>string\<close>: one \<open>char\<close> per code point, for the code points below 256.
  An exception is a value carrying what \<open>str(e)\<close> gives. Only exceptions derived from
  \<open>Exception\<close> are modelled; an interrupt or an interpreter exit is not an outcome here.
\<close>

datatype py_exn = PyExc string

fun str_exn :: "py_exn \<Rightarrow> string" where
  "str_exn (PyExc msg) = msg"

subsection \<open>Strings\<close>

definition digit :: "nat \<Rightarrow> char" where
  "digit d = ''0123456789'' ! d"

text \<open>\<open>str(n)\<close> and \<open>f"{n}"\<close> for a non-negative integer.\<close>

fun str_nat :: "nat \<Rightarrow> string" where
  "str_nat n = (if n < 10 then [digit n] else str_nat (n div 10) @ [digit (n mod 10)])"

declare str_nat.simps [simp del]

text \<open>\<open>sub in s\<close> on strings is the contiguous-substring test.\<close>

abbreviation str_in :: "string \<Rightarrow> string \<Rightarrow> bool" where
  "str_in sub s \<equiv> sublist sub s"

text \<open>\<open>sep.join(xs)\<close>\<close>

fun join :: "string \<Rightarrow> string list \<Rightarrow> string" where
  "join sep [] = []"
| "join sep [x] = x"
| "join sep (x # y # ys) = x @ sep @ join sep (y # ys)"

text \<open>\<open>s.split(c)\<close> for a one-character separator: always at least one field.\<close>

fun split :: "char \<Rightarrow> string \<Rightarrow> string list" where
  "split c [] = [[]]"
| "split c (x # xs) =
     (if x = c then [] # split c xs
      else (let fields = split c xs in (x # hd fields) # tl fields))"

text \<open>\<open>str.isspace\<close> on one character, for code points below 256.\<close>

definition isspace :: "char \<Rightarrow> bool" where
  "isspace c =
     (let n = (of_char c :: nat)
      in (9 \<le> n \<and> n \<le> 13) \<or> (28 \<le> n \<and> n \<le> 32) \<or> n = 133 \<or> n = 160)"

text \<open>\<open>s.strip()\<close>\<close>

definition strip :: "string \<Rightarrow> string" where
  "strip s = rev (dropWhile isspace (rev (dropWhile isspace s)))"

text \<open>
  \<open>s.replace(old, new)\<close>: occurrences are replaced left to right without overlap;
  \<open>skip\<close> counts the characters of an occurrence still to be passed over.
  With an empty \<open>old\<close>, Python puts \<open>new\<close> before every character and at the end.
\<close>

fun replace_from :: "string \<Rightarrow> string \<Rightarrow> nat \<Rightarrow> string \<Rightarrow> string" where
  "replace_from old new skip [] = []"
| "replace_from old new (Suc k) (x # xs) = replace_from old new k xs"
| "replace_from old new 0 (x # xs) =
     (if prefix old (x # xs) then new @ replace_from old new (length old - 1) xs
      else x # replace_from old new 0 xs)"

definition replace :: "string \<Rightarrow> string \<Rightarrow> string \<Rightarrow> string" where
  "replace old new s =
     (if old = [] then new @ concat (map (\<lambda>c. c # new) s) else replace_from old new 0 s)"

text \<open>\<open>xs[a:b]\<close> for \<open>0 \<le> a\<close>, \<open>0 \<le> b\<close>.\<close>

definition slice :: "nat \<Rightarrow> nat \<Rightarrow> 'a list \<Rightarrow> 'a list" where
  "slice a b xs = take (b - a) (drop a xs)"

text \<open>\<open>enumerate(xs, start)\<close>\<close>

definition enumerate_from :: "nat \<Rightarrow> 'a list \<Rightarrow> (nat \<times> 'a) list" where
  "enumerate_from start xs = zip [start ..< start + length xs] xs"

section \<open>The regular expressions of module \<open>re\<close>\<close>

text \<open>
  The fragment the scripts use: literal characters, character classes, \<open>\w\<close>, the dot
  under \<open>re.DOTALL\<close>, sequence, alternation, the lazy star \<open>r*?\<close>, the greedy star,
  capture groups and the lookahead \<open>(?=r)\<close>.
\<close>

datatype regex =
    Lit char
  | Cls "char list"
  | Word
  | Dot
  | Eps
  | Seq regex regex
  | Alt regex regex
  | LazyStar regex
  | Star regex
  | Group nat regex
  | Lookahead regex

text \<open>\<open>\w\<close> on a \<open>str\<close> pattern, for code points below 256.\<close>

definition word_char :: "char \<Rightarrow> bool" where
  "word_char c =
     (let n = (of_char c :: nat)
      in (48 \<le> n \<and> n \<le> 57) \<or> (65 \<le> n \<and> n \<le> 90) \<or> n = 95 \<or> (97 \<le> n \<and> n \<le> 122)
         \<or> n = 170 \<or> n = 178 \<or> n = 179 \<or> n = 181 \<or> n = 185 \<or> n = 186
         \<or> (188 \<le> n \<and> n \<le> 190) \<or> (192 \<le> n \<and> n \<le> 214) \<or> (216 \<le> n \<and> n \<le> 246)
         \<or> 248 \<le> n)"

text \<open>
  A matcher state: the position reached, the text still ahead, and the groups captured
  so far. \<open>backtrack r st\<close> lists the states in which \<open>r\<close> can end when started in
  \<open>st\<close>, in the order in which the backtracking matcher tries them; the head is the
  match that \<open>re\<close> reports.
\<close>

type_synonym mstate = "nat \<times> string \<times> (nat \<times> string) list"

definition consumed :: "mstate \<Rightarrow> mstate \<Rightarrow> bool" where
  "consumed st st' = (length (fst (snd st')) < length (fst (snd st)))"

definition step_char :: "(char \<Rightarrow> bool) \<Rightarrow> mstate \<Rightarrow> mstate list" where
  "step_char P st =
     (case st of (p, rest, g) \<Rightarrow>
        (case rest of [] \<Rightarrow> [] | x # xs \<Rightarrow> if P x then [(Suc p, xs, g)] else []))"

definition capture :: "nat \<Rightarrow> mstate \<Rightarrow> mstate \<Rightarrow> mstate" where
  "capture n st st' =
     (case st of (p, rest, g) \<Rightarrow>
        (case st' of (q, rest', g') \<Rightarrow> (q, rest', AList.update n (take (q - p) rest) g')))"

function backtrack :: "regex \<Rightarrow> mstate \<Rightarrow> mstate list" where
  "backtrack (Lit c) st = step_char (\<lambda>x. x = c) st"
| "backtrack (Cls cs) st = step_char (\<lambda>x. x \<in> set cs) st"
| "backtrack Word st = step_char word_char st"
| "backtrack Dot st = step_char (\<lambda>x. True) st"
| "backtrack Eps st = [st]"
| "backtrack (Seq r1 r2) st = concat (map (backtrack r2) (backtrack r1 st))"
| "backtrack (Alt r1 r2) st = backtrack r1 st @ backtrack r2 st"
| "backtrack (LazyStar r) st =
     st # concat (map (backtrack (LazyStar r)) (filter (consumed st) (backtrack r st)))"
| "backtrack (Star r) st =
     concat (map (backtrack (Star r)) (filter (consumed st) (backtrack r st))) @ [st]"
| "backtrack (Group n r) st = map (capture n st) (backtrack r st)"
| "backtrack (Lookahead r) st =
     (case backtrack r st of [] \<Rightarrow> []
      | st' # _ \<Rightarrow> [(fst st, fst (snd st), snd (snd st'))])"
  by pat_completeness auto
termination
  by (relation "inv_image (measure size <*lex*> measure (\<lambda>st. length (fst (snd st)))) id")
     (auto simp: consumed_def)

text \<open>A literal string, and \<open>r+\<close>.\<close>

fun lits :: "string \<Rightarrow> regex" where
  "lits [] = Eps"
| "lits [c] = Lit c"
| "lits (c # cs) = Seq (Lit c) (lits cs)"

definition Plus :: "regex \<Rightarrow> regex" where
  "Plus r = Seq r (Star r)"

fun seqs :: "regex list \<Rightarrow> regex" where
  "seqs [] = Eps"
| "seqs [r] = r"
| "seqs (r # rs) = Seq r (seqs rs)"

fun alts :: "regex list \<Rightarrow> regex" where
  "alts [] = Eps"
| "alts [r] = r"
| "alts (r # rs) = Alt r (alts rs)"

text \<open>
  A match object: its span and its groups. \<open>re.search\<close> tries the start positions from
  left to right and reports the first match of the leftmost one that has any.
\<close>

record match =
  m_start :: nat
  m_end :: nat
  m_groups :: "(nat \<times> string) list"

fun search_from :: "regex \<Rightarrow> nat \<Rightarrow> string \<Rightarrow> match option" where
  "search_from r p [] =
     (case backtrack r (p, [], []) of [] \<Rightarrow> None
      | (q, _, g) # _ \<Rightarrow> Some \<lparr>m_start = p, m_end = q, m_groups = g\<rparr>)"
| "search_from r p (x # xs) =
     (case backtrack r (p, x # xs, []) of [] \<Rightarrow> search_from r (Suc p) xs
      | (q, _, g) # _ \<Rightarrow> Some \<lparr>m_start = p, m_end = q, m_groups = g\<rparr>)"

definition re_search :: "regex \<Rightarrow> string \<Rightarrow> match option" where
  "re_search r s = search_from r 0 s"

text \<open>\<open>match.group(n)\<close>: \<open>None\<close> when the group took no part in the match.\<close>

definition group :: "match \<Rightarrow> nat \<Rightarrow> string option" where
  "group m n = map_of (m_groups m) n"

text \<open>
  The spans of the successive non-overlapping matches, as \<open>re.finditer\<close> scans them;
  \<open>skip\<close> counts the characters of the last match still to be passed over.
\<close>

fun spans_from :: "regex \<Rightarrow> nat \<Rightarrow> nat \<Rightarrow> string \<Rightarrow> (nat \<times> nat) list" where
  "spans_from r p skip [] =
     (if skip = 0 then (case backtrack r (p, [], []) of [] \<Rightarrow> [] | (q, _, _) # _ \<Rightarrow> [(p, q)])
      else [])"
| "spans_from r p (Suc k) (x # xs) = spans_from r (Suc p) k xs"
| "spans_from r p 0 (x # xs) =
     (case backtrack r (p, x # xs, []) of [] \<Rightarrow> spans_from r (Suc p) 0 xs
      | (q, _, _) # _ \<Rightarrow> (p, q) # spans_from r (Suc p) (q - p - 1) xs)"

definition finditer :: "regex \<Rightarrow> string \<Rightarrow> (nat \<times> nat) list" where
  "finditer r s = spans_from r 0 0 s"

text \<open>\<open>re.findall\<close> for a pattern without groups: the matched texts.\<close>

definition findall :: "regex \<Rightarrow> string \<Rightarrow> string list" where
  "findall r s = map (\<lambda>(a, b). slice a b s) (finditer r s)"

section \<open>What the scripts print\<close>

text \<open>
  One constructor for each printing helper of the scripts (\<open>test\<close>/\<open>print_test\<close>,
  \<open>ok\<close>/\<open>print_pass\<close>, \<open>fail\<close>/\<open>print_fail\<close>, \<open>warn\<close>/\<open>print_warn\<close>,
  \<open>info\<close>/\<open>print_info\<close>), \<open>Print\<close> for a bare \<open>print\<close>, and \<open>Traceback\<close> for
  \<open>traceback.print_exc()\<close>. The colour escape sequences and the glyphs the helpers put
  around the message are left out of the strings.
\<close>

datatype line =
    Test string
  | Ok string
  | Fail string
  | Warn string
  | Info string
  | Print string
  | Traceback py_exn

text \<open>
  Calling a rule: the lines it printed, and either the boolean it returned or the
  exception it raised.
\<close>

type_synonym rule_run = "line list \<times> (py_exn + bool)"

definition after_lines :: "line list \<Rightarrow> rule_run \<Rightarrow> rule_run" where
  "after_lines ls run = (ls @ fst run, snd run)"

definition nl :: char where
  "nl = CHR 0x0A"

section \<open>tests/test\_static\_analysis.py\<close>

text \<open>
  The environment of a run: what \<open>os.chdir\<close> does (\<open>None\<close>: it succeeds) and what
  opening and reading a file gives, the text or the exception raised.
\<close>

record env =
  chdir :: "string \<Rightarrow> py_exn option"
  open_read :: "string \<Rightarrow> py_exn + string"

definition read_file :: "env \<Rightarrow> string \<Rightarrow> py_exn + string" where
  "read_file e path = open_read e path"

subsection \<open>The patterns\<close>

definition quote :: regex where
  "quote = Cls [CHR 0x27, CHR 0x22]"

text \<open>\<^verbatim>\<open>@app\.route\(['\"]\/verify_signature['\"]\<close>\<close>

definition route_pattern :: regex where
  "route_pattern = seqs [lits ''@app.route('', quote, lits ''/verify_signature'', quote]"

text \<open>\<^verbatim>\<open>\n@app\.route\<close>, \<^verbatim>\<open>\ndef \w+\(\<close>, \<^verbatim>\<open>\nclass \w+\<close>, \<^verbatim>\<open>\n@socketio\.on\<close>\<close>

definition next_route :: regex where
  "next_route = lits (nl # ''@app.route'')"

definition next_def :: regex where
  "next_def = seqs [lits (nl # ''def ''), Plus Word, Lit CHR ''('']"

definition next_class :: regex where
  "next_class = seqs [lits (nl # ''class ''), Plus Word]"

definition next_socketio :: regex where
  "next_socketio = lits (nl # ''@socketio.on'')"

text \<open>
  \<^verbatim>\<open>@app\.route\(['"]\/verify_signature['"]\).*?def verify_signature\(\):(.*?)(?=\n@app\.route|\ndef \w+\(|\nclass \w+)\<close>
\<close>

definition verify_signature_pattern :: regex where
  "verify_signature_pattern =
     seqs [lits ''@app.route('', quote, lits ''/verify_signature'', quote, Lit CHR '')'',
           LazyStar Dot, lits ''def verify_signature():'', Group 1 (LazyStar Dot),
           Lookahead (alts [next_route, next_def, next_class])]"

text \<open>\<^verbatim>\<open>get_storage\(\)\<close>\<close>

definition get_storage_pattern :: regex where
  "get_storage_pattern = lits ''get_storage()''"

text \<open>\<^verbatim>\<open>@socketio\.on\(['"]message['"]\)(.*?)(?=\n@socketio\.on|\n@app\.route|\ndef \w+\()\<close>\<close>

definition message_handler_pattern :: regex where
  "message_handler_pattern =
     seqs [lits ''@socketio.on('', quote, lits ''message'', quote, Lit CHR '')'',
           Group 1 (LazyStar Dot),
           Lookahead (alts [next_socketio, next_route, next_def])]"

text \<open>\<^verbatim>\<open>@app\.route\(['"]\/chat['"]\)(.*?)(?=\n@app\.route|\ndef \w+\()\<close>\<close>

definition chat_route_pattern :: regex where
  "chat_route_pattern =
     seqs [lits ''@app.route('', quote, lits ''/chat'', quote, Lit CHR '')'',
           Group 1 (LazyStar Dot),
           Lookahead (alts [next_route, next_def])]"

text \<open>\<open>sub in body\<close> where \<open>body\<close> is \<open>match.group(1)\<close>: a \<open>TypeError\<close> on \<open>None\<close>.\<close>

definition in_group :: "string \<Rightarrow> string option \<Rightarrow> py_exn + bool" where
  "in_group sub body =
     (case body of
        None \<Rightarrow> Inl (PyExc ''argument of type 'NoneType' is not iterable'')
      | Some b \<Rightarrow> Inr (str_in sub b))"

subsection \<open>Issue 1\<close>

definition test_issue1_no_duplicate_routes :: "env \<Rightarrow> rule_run" where
  "test_issue1_no_duplicate_routes e =
     after_lines [Test ''Issue #1: No duplicate /verify_signature routes'']
       (case read_file e ''app/app.py'' of
          Inl x \<Rightarrow> ([], Inl x)
        | Inr source \<Rightarrow>
            (let matches = findall route_pattern source in
             if length matches = 0 then
               ([Fail ''No /verify_signature route found!''], Inr False)
             else if length matches = 1 then
               ([Ok ''Only ONE /verify_signature route found (correct)''], Inr True)
             else
               ([Fail (''Found '' @ str_nat (length matches)
                       @ '' duplicate /verify_signature routes!'')], Inr False)))"

definition test_issue1_no_legacy_function :: "env \<Rightarrow> rule_run" where
  "test_issue1_no_legacy_function e =
     after_lines [Test ''Issue #1: verify_signature_legacy function deleted'']
       (case read_file e ''app/app.py'' of
          Inl x \<Rightarrow> ([], Inl x)
        | Inr source \<Rightarrow>
            (if str_in ''def verify_signature_legacy('' source then
               ([Fail ''verify_signature_legacy function still exists (should be deleted)''],
                Inr False)
             else
               ([Ok ''verify_signature_legacy function deleted (correct)''], Inr True)))"

definition test_issue1_finish_login_used :: "env \<Rightarrow> rule_run" where
  "test_issue1_finish_login_used e =
     after_lines [Test ''Issue #1: verify_signature uses _finish_login for OAuth cookies'']
       (case read_file e ''app/app.py'' of
          Inl x \<Rightarrow> ([], Inl x)
        | Inr source \<Rightarrow>
            (case re_search verify_signature_pattern source of
               None \<Rightarrow> ([Fail ''Could not find verify_signature function''], Inr False)
             | Some m \<Rightarrow>
                 (let func_body = group m 1 in
                  case in_group ''_finish_login'' func_body of
                    Inl x \<Rightarrow> ([], Inl x)
                  | Inr True \<Rightarrow>
                      ([Ok ''verify_signature calls _finish_login (correct)''], Inr True)
                  | Inr False \<Rightarrow>
                      ([Warn ''verify_signature may not call _finish_login''], Inr True))))"

subsection \<open>Issue 2\<close>

definition test_issue2_no_get_storage_calls :: "env \<Rightarrow> rule_run" where
  "test_issue2_no_get_storage_calls e =
     after_lines [Test ''Issue #2: No get_storage() calls in OAuth code'']
       (case read_file e ''app/app.py'' of
          Inl x \<Rightarrow> ([], Inl x)
        | Inr source \<Rightarrow>
            (let matches = findall get_storage_pattern source in
             if length matches = 0 then
               ([Ok ''No get_storage() calls found (correct - using db_storage)''], Inr True)
             else
               (let lines = split nl source in
                (Fail (''Found '' @ str_nat (length matches)
                       @ '' get_storage() calls (should use db_storage)'')
                 # map (\<lambda>(i, line). Info (''  Line '' @ str_nat i @ '': '' @ strip line))
                     (filter (\<lambda>(i, line). str_in ''get_storage()'' line \<and> i < 10)
                        (enumerate_from 1 lines)),
                 Inr False))))"

definition test_issue2_uses_store_oauth_client :: "env \<Rightarrow> rule_run" where
  "test_issue2_uses_store_oauth_client e =
     after_lines [Test ''Issue #2: Uses store_oauth_client() from db_storage'']
       (case read_file e ''app/app.py'' of
          Inl x \<Rightarrow> ([], Inl x)
        | Inr source \<Rightarrow>
            (if str_in ''store_oauth_client('' source then
               ([Ok ''store_oauth_client() is used (PostgreSQL storage)''], Inr True)
             else
               ([Fail ''store_oauth_client() not found (should use db_storage)''], Inr False)))"

definition test_issue2_uses_get_oauth_client :: "env \<Rightarrow> rule_run" where
  "test_issue2_uses_get_oauth_client e =
     after_lines [Test ''Issue #2: Uses get_oauth_client() from db_storage'']
       (case read_file e ''app/app.py'' of
          Inl x \<Rightarrow> ([], Inl x)
        | Inr source \<Rightarrow>
            (if str_in ''get_oauth_client('' source then
               ([Ok ''get_oauth_client() is used (PostgreSQL storage)''], Inr True)
             else
               ([Fail ''get_oauth_client() not found (should use db_storage)''], Inr False)))"

text \<open>The loops over a table of checks: the lines printed so far and \<open>all_ok\<close>.\<close>

definition oauth_code_check :: "string \<Rightarrow> line list \<times> bool \<Rightarrow> string \<times> string \<Rightarrow> line list \<times> bool" where
  "oauth_code_check source acc check =
     (case check of (func, msg) \<Rightarrow>
        if str_in (func @ ''('') source then (fst acc @ [Ok msg], snd acc)
        else (fst acc @ [Fail (func @ ''() not found'')], False))"

definition test_issue2_uses_oauth_code_functions :: "env \<Rightarrow> rule_run" where
  "test_issue2_uses_oauth_code_functions e =
     after_lines [Test ''Issue #2: OAuth codes use db_storage functions'']
       (case read_file e ''app/app.py'' of
          Inl x \<Rightarrow> ([], Inl x)
        | Inr source \<Rightarrow>
            (let checks = [(''store_oauth_code'', ''store_oauth_code() is used''),
                           (''get_oauth_code'', ''get_oauth_code() is used''),
                           (''delete_oauth_code'', ''delete_oauth_code() is used'')];
                 done = foldl (oauth_code_check source) ([], True) checks
             in (fst done, Inr (snd done))))"

definition test_issue2_deprecated_stores_marked :: "env \<Rightarrow> rule_run" where
  "test_issue2_deprecated_stores_marked e =
     after_lines [Test ''Issue #2: In-memory stores marked DEPRECATED'']
       (case read_file e ''app/app.py'' of
          Inl x \<Rightarrow> ([], Inl x)
        | Inr source \<Rightarrow>
            ([if str_in ''CLIENT_STORE: Dict'' source \<and> str_in ''DEPRECATED'' source
              then Ok ''CLIENT_STORE marked as DEPRECATED''
              else Warn ''CLIENT_STORE may not be clearly marked as DEPRECATED'',
              if str_in ''AUTH_CODE_STORE: Dict'' source \<and> str_in ''DEPRECATED'' source
              then Ok ''AUTH_CODE_STORE marked as DEPRECATED''
              else Warn ''AUTH_CODE_STORE may not be clearly marked as DEPRECATED''],
             Inr True))"

subsection \<open>Issue 3\<close>

definition redis_function_check :: "string \<Rightarrow> line list \<times> bool \<Rightarrow> string \<Rightarrow> line list \<times> bool" where
  "redis_function_check source acc func =
     (let shown = replace ''('' ''()'' (replace ''def '' [] func) in
      if str_in func source then (fst acc @ [Ok (shown @ '' exists'')], snd acc)
      else (fst acc @ [Fail (shown @ '' not found'')], False))"

definition test_issue3_redis_functions_exist :: "env \<Rightarrow> rule_run" where
  "test_issue3_redis_functions_exist e =
     after_lines [Test ''Issue #3: Redis chat history functions exist'']
       (case read_file e ''app/app.py'' of
          Inl x \<Rightarrow> ([], Inl x)
        | Inr source \<Rightarrow>
            (let funcs = [''def get_chat_history('', ''def add_chat_message('',
                          ''def purge_old_chat_messages(''];
                 done = foldl (redis_function_check source) ([], True) funcs
             in (fst done, Inr (snd done))))"

definition test_issue3_get_redis_import :: "env \<Rightarrow> rule_run" where
  "test_issue3_get_redis_import e =
     after_lines [Test ''Issue #3: get_redis imported from database'']
       (case read_file e ''app/app.py'' of
          Inl x \<Rightarrow> ([], Inl x)
        | Inr source \<Rightarrow>
            (if str_in ''from app.database import'' source \<and> str_in ''get_redis'' source then
               ([Ok ''get_redis imported from app.database''], Inr True)
             else
               ([Fail ''get_redis not imported from app.database''], Inr False)))"

text \<open>Both branches of this loop leave \<open>all_ok\<close> true, as the source writes it.\<close>

definition redis_operation_check :: "string \<Rightarrow> line list \<times> bool \<Rightarrow> string \<times> string \<Rightarrow> line list \<times> bool" where
  "redis_operation_check source acc check =
     (case check of (op, name) \<Rightarrow>
        if str_in (''redis_client.'' @ op) source
        then (fst acc @ [Ok (''Uses Redis '' @ name @ '' operation'')], snd acc)
        else (fst acc @ [Warn (''May not use Redis '' @ name @ '' operation'')], True))"

definition test_issue3_redis_operations_used :: "env \<Rightarrow> rule_run" where
  "test_issue3_redis_operations_used e =
     after_lines [Test ''Issue #3: Redis operations used (LPUSH, LRANGE, LTRIM)'']
       (case read_file e ''app/app.py'' of
          Inl x \<Rightarrow> ([], Inl x)
        | Inr source \<Rightarrow>
            (let ops = [(''lpush'', ''LPUSH''), (''lrange'', ''LRANGE''), (''ltrim'', ''LTRIM'')];
                 done = foldl (redis_operation_check source) ([], True) ops
             in (fst done, Inr (snd done))))"

definition test_issue3_add_chat_message_used :: "env \<Rightarrow> rule_run" where
  "test_issue3_add_chat_message_used e =
     after_lines [Test ''Issue #3: WebSocket handler uses add_chat_message()'']
       (case read_file e ''app/app.py'' of
          Inl x \<Rightarrow> ([], Inl x)
        | Inr source \<Rightarrow>
            (case re_search message_handler_pattern source of
               None \<Rightarrow> ([Warn ''Could not find @socketio.on('message') handler''], Inr True)
             | Some m \<Rightarrow>
                 (let handler_body = group m 1 in
                  case in_group ''add_chat_message('' handler_body of
                    Inl x \<Rightarrow> ([], Inl x)
                  | Inr True \<Rightarrow>
                      ([Ok ''Message handler uses add_chat_message() (correct)''], Inr True)
                  | Inr False \<Rightarrow>
                      ([Fail ''Message handler does NOT use add_chat_message()''], Inr False))))"

definition test_issue3_get_chat_history_used :: "env \<Rightarrow> rule_run" where
  "test_issue3_get_chat_history_used e =
     after_lines [Test ''Issue #3: Uses get_chat_history() instead of direct access'']
       (case read_file e ''app/app.py'' of
          Inl x \<Rightarrow> ([], Inl x)
        | Inr source \<Rightarrow>
            (case re_search chat_route_pattern source of
               None \<Rightarrow> ([Warn ''Could not find /chat route''], Inr True)
             | Some m \<Rightarrow>
                 (let route_body = group m 1 in
                  case in_group ''get_chat_history()'' route_body of
                    Inl x \<Rightarrow> ([], Inl x)
                  | Inr True \<Rightarrow> ([Ok ''/chat route uses get_chat_history() (correct)''], Inr True)
                  | Inr False \<Rightarrow>
                      (case in_group ''history=get_chat_history()'' route_body of
                         Inl x \<Rightarrow> ([], Inl x)
                       | Inr True \<Rightarrow>
                           ([Ok ''/chat route uses get_chat_history() (correct)''], Inr True)
                       | Inr False \<Rightarrow>
                           ([Fail ''/chat route does NOT use get_chat_history()''], Inr False)))))"

text \<open>
  The loop over \<open>enumerate(lines)\<close> that returns at the first declaration of
  \<open>CHAT_HISTORY\<close> with \<open>DEPRECATED\<close> in the five lines before it.
\<close>

fun chat_history_marked :: "string list \<Rightarrow> (nat \<times> string) list \<Rightarrow> bool" where
  "chat_history_marked lines [] = False"
| "chat_history_marked lines ((i, line) # rest) =
     (if str_in ''CHAT_HISTORY: List'' line then
        (let context = join [nl] (slice (i - 5) i lines) in
         if str_in ''DEPRECATED'' context then True else chat_history_marked lines rest)
      else chat_history_marked lines rest)"

definition test_issue3_chat_history_deprecated :: "env \<Rightarrow> rule_run" where
  "test_issue3_chat_history_deprecated e =
     after_lines [Test ''Issue #3: CHAT_HISTORY marked DEPRECATED'']
       (case read_file e ''app/app.py'' of
          Inl x \<Rightarrow> ([], Inl x)
        | Inr source \<Rightarrow>
            (let lines = split nl source in
             if chat_history_marked lines (enumerate_from 0 lines) then
               ([Ok ''CHAT_HISTORY marked as DEPRECATED (correct)''], Inr True)
             else
               ([Fail ''CHAT_HISTORY not clearly marked as DEPRECATED''], Inr False)))"

section \<open>The runner and the summary\<close>

text \<open>
  \<open>results\<close> is the dictionary of the runner, in insertion order: assigning to a key that
  is present keeps its place, a new key goes to the end.
\<close>

type_synonym results = "(string \<times> bool) list"

text \<open>
  The loop of both scripts over the catalog:
  \<^verbatim>\<open>
  for t in tests:
      try:
          results[name] = t()
      except Exception as e:
          fail(f"Test crashed: {e}")
          traceback.print_exc()
          results[name] = False
  \<close>
\<close>

fun run_tests :: "'e \<Rightarrow> (string \<times> ('e \<Rightarrow> rule_run)) list \<Rightarrow> line list \<times> results \<Rightarrow> line list \<times> results" where
  "run_tests e [] acc = acc"
| "run_tests e ((name, t) # ts) acc =
     (case snd (t e) of
        Inr r \<Rightarrow> run_tests e ts (fst acc @ fst (t e), AList.update name r (snd acc))
      | Inl x \<Rightarrow>
          run_tests e ts
            (fst acc @ fst (t e) @ [Fail (''Test crashed: '' @ str_exn x), Traceback x],
             AList.update name False (snd acc)))"

definition bar :: string where
  "bar = replicate 70 CHR ''=''"

subsection \<open>\<open>main\<close> of tests/test\_static\_analysis.py\<close>

definition tests :: "(string \<times> (env \<Rightarrow> rule_run)) list" where
  "tests =
     [(''test_issue1_no_duplicate_routes'', test_issue1_no_duplicate_routes),
      (''test_issue1_no_legacy_function'', test_issue1_no_legacy_function),
      (''test_issue1_finish_login_used'', test_issue1_finish_login_used),
      (''test_issue2_no_get_storage_calls'', test_issue2_no_get_storage_calls),
      (''test_issue2_uses_store_oauth_client'', test_issue2_uses_store_oauth_client),
      (''test_issue2_uses_get_oauth_client'', test_issue2_uses_get_oauth_client),
      (''test_issue2_uses_oauth_code_functions'', test_issue2_uses_oauth_code_functions),
      (''test_issue2_deprecated_stores_marked'', test_issue2_deprecated_stores_marked),
      (''test_issue3_redis_functions_exist'', test_issue3_redis_functions_exist),
      (''test_issue3_get_redis_import'', test_issue3_get_redis_import),
      (''test_issue3_redis_operations_used'', test_issue3_redis_operations_used),
      (''test_issue3_add_chat_message_used'', test_issue3_add_chat_message_used),
      (''test_issue3_get_chat_history_used'', test_issue3_get_chat_history_used),
      (''test_issue3_chat_history_deprecated'', test_issue3_chat_history_deprecated)]"

text \<open>
  The counts of the summary. \<open>failed = total - passed\<close> is a subtraction of Python
  integers.
\<close>

definition passed_count :: "results \<Rightarrow> nat" where
  "passed_count rs = length (filter (\<lambda>r. r) (map snd rs))"

definition total_count :: "results \<Rightarrow> nat" where
  "total_count rs = length rs"

definition failed_count :: "results \<Rightarrow> int" where
  "failed_count rs = int (total_count rs) - int (passed_count rs)"

definition str_int :: "int \<Rightarrow> string" where
  "str_int i = (if i < 0 then CHR ''-'' # str_nat (nat (- i)) else str_nat (nat i))"

definition status_line :: "string \<times> bool \<Rightarrow> line" where
  "status_line entry =
     (case entry of (name, result) \<Rightarrow>
        (let status = (if result then ''PASS'' else ''FAIL'');
             clean_name = replace ''_'' '' '' (replace ''test_issue'' ''Issue #'' name)
         in Print (status @ '' - '' @ clean_name)))"

definition result_line :: "results \<Rightarrow> line" where
  "result_line rs =
     Print (nl # ''Result: '' @ str_nat (passed_count rs) @ ''/'' @ str_nat (total_count rs)
            @ '' passed, '' @ str_int (failed_count rs) @ ''/'' @ str_nat (total_count rs)
            @ '' failed'')"

definition summary :: "results \<Rightarrow> line list \<times> int" where
  "summary rs =
     ([Print (nl # bar), Print ''Summary'', Print bar]
      @ map status_line rs
      @ [result_line rs]
      @ (if failed_count rs = 0
         then [Print (nl # ''All tests passed! Critical fixes verified.'')]
         else [Print (nl # str_int (failed_count rs) @ '' test(s) failed.'')]),
      if failed_count rs = 0 then 0 else 1)"

text \<open>
  \<open>main\<close>: what is printed, and the value returned (the exit code of the process) or the
  exception that leaves \<open>main\<close>: \<open>os.chdir\<close> is outside the \<open>try\<close>.
\<close>

definition main :: "env \<Rightarrow> line list \<times> (py_exn + int)" where
  "main e =
     (let banner = [Print bar, Print ''HODLXXI Static Analysis Tests (Issues #1, #2, #3)'',
                    Print ''No dependencies required - analyzes source code directly'',
                    Print bar]
      in case chdir e ''/home/user/The-Universal-Bitcoin-Identity-Layer'' of
           Some x \<Rightarrow> (banner, Inl x)
         | None \<Rightarrow>
             (let ran = run_tests e tests ([], []);
                  report = summary (snd ran)
              in (banner @ fst ran @ fst report, Inr (snd report))))"

text \<open>
  Both scripts end with \<open>sys.exit(main())\<close>: the exit status of the process is the
  value \<open>main\<close> returns, and 1 when an exception leaves \<open>main\<close>.
\<close>

definition exit_status :: "py_exn + int \<Rightarrow> int" where
  "exit_status r = (case r of Inl x \<Rightarrow> 1 | Inr code \<Rightarrow> code)"

section \<open>tests/test\_critical\_fixes.py\<close>

subsection \<open>\<open>repr\<close> of the values the messages interpolate\<close>

definition hex2 :: "nat \<Rightarrow> string" where
  "hex2 n = [''0123456789abcdef'' ! (n div 16), ''0123456789abcdef'' ! (n mod 16)]"

definition repr_char :: "char \<Rightarrow> char \<Rightarrow> string" where
  "repr_char q c =
     (let n = (of_char c :: nat) in
      if c = CHR 0x5C then [CHR 0x5C, CHR 0x5C]
      else if c = q then [CHR 0x5C, q]
      else if c = CHR 0x0A then [CHR 0x5C, CHR ''n'']
      else if c = CHR 0x0D then [CHR 0x5C, CHR ''r'']
      else if c = CHR 0x09 then [CHR 0x5C, CHR ''t'']
      else if n < 32 \<or> (127 \<le> n \<and> n \<le> 160) \<or> n = 173 then [CHR 0x5C, CHR ''x''] @ hex2 n
      else [c])"

text \<open>
  \<open>repr(s)\<close> of a string: double quotes when the text has a single quote and no double
  quote, single quotes otherwise; code points below 256.
\<close>

definition repr_str :: "string \<Rightarrow> string" where
  "repr_str s =
     (let q = (if CHR 0x27 \<in> set s \<and> CHR 0x22 \<notin> set s then CHR 0x22 else CHR 0x27)
      in [q] @ concat (map (repr_char q) s) @ [q])"

definition repr_list :: "string list \<Rightarrow> string" where
  "repr_list xs = ''['' @ join '', '' (map repr_str xs) @ '']''"

subsection \<open>The application under test, as the rules see it\<close>

text \<open>
  A rule of the application's URL map: its endpoint, its set of methods, and the path
  that \<open>str(rule)\<close> gives.
\<close>

record url_rule =
  rule_endpoint :: string
  rule_methods :: "string fset"
  rule_path :: string

text \<open>The dictionary the first rule builds for each route.\<close>

record route =
  endpoint :: string
  methods :: string
  path :: string

definition repr_route :: "route \<Rightarrow> string" where
  "repr_route r =
     ''{'endpoint': '' @ repr_str (endpoint r) @ '', 'methods': '' @ repr_str (methods r)
     @ '', 'path': '' @ repr_str (path r) @ ''}''"

text \<open>
  The module \<open>app.app\<close>: the names \<open>inspect.getmembers\<close> lists (sorted by name) with
  whether each is a function, \<open>hasattr\<close>, and what looking up a dotted name in the module
  and calling \<open>inspect.getsource\<close> on it gives.
\<close>

record app_module =
  getmembers :: "(string \<times> bool) list"
  hasattr :: "string \<Rightarrow> bool"
  getsource :: "string \<Rightarrow> py_exn + string"

text \<open>
  The environment of a run. An import has the same outcome each time a rule attempts it:
  \<open>from app import app\<close> (\<open>None\<close>: it succeeds), iterating \<open>url_map.iter_rules()\<close> of
  the imported object, \<open>import app.app\<close>, the import from \<open>app.db_storage\<close>, and
  opening and reading a file.
\<close>

record cenv =
  import_flask_app :: "py_exn option"
  iter_rules :: "py_exn + url_rule list"
  import_app_module :: "py_exn + app_module"
  import_db_storage :: "py_exn option"
  file_read :: "string \<Rightarrow> py_exn + string"

subsection \<open>Sequencing, \<open>try\<close> and \<open>except\<close>\<close>

type_synonym 'a run = "line list \<times> (py_exn + 'a)"

definition bind :: "'a run \<Rightarrow> ('a \<Rightarrow> 'b run) \<Rightarrow> 'b run" where
  "bind m f =
     (case snd m of
        Inl x \<Rightarrow> (fst m, Inl x)
      | Inr a \<Rightarrow> (fst m @ fst (f a), snd (f a)))"

definition attempt :: "py_exn option \<Rightarrow> unit run" where
  "attempt r = (case r of None \<Rightarrow> ([], Inr ()) | Some x \<Rightarrow> ([], Inl x))"

definition try_except :: "'a run \<Rightarrow> (py_exn \<Rightarrow> 'a run) \<Rightarrow> 'a run" where
  "try_except m handler =
     (case snd m of
        Inl x \<Rightarrow> (fst m @ fst (handler x), snd (handler x))
      | Inr a \<Rightarrow> m)"

text \<open>
  The handler of the rules:
  \<^verbatim>\<open>
  except Exception as e:
      print_fail(f"Error ...: {e}")
      traceback.print_exc()
      return False
  \<close>
\<close>

definition error_handler :: "string \<Rightarrow> py_exn \<Rightarrow> rule_run" where
  "error_handler what x = ([Fail (what @ str_exn x), Traceback x], Inr False)"

subsection \<open>Issue 1\<close>

definition to_route :: "url_rule \<Rightarrow> route" where
  "to_route r =
     \<lparr>endpoint = rule_endpoint r,
      methods = join '','' (sorted_list_of_fset (rule_methods r |-| {|''HEAD'', ''OPTIONS''|})),
      path = rule_path r\<rparr>"

definition verify_routes_of :: "url_rule list \<Rightarrow> route list" where
  "verify_routes_of rules =
     (let routes = map to_route (filter (\<lambda>r. rule_endpoint r \<noteq> ''static'') rules)
      in filter (\<lambda>r. path r = ''/verify_signature'') routes)"

definition test_no_duplicate_verify_signature :: "cenv \<Rightarrow> rule_run" where
  "test_no_duplicate_verify_signature e =
     after_lines [Test ''Issue #1: No duplicate /verify_signature routes'']
       (try_except
          (bind (attempt (import_flask_app e)) (\<lambda>_.
           bind ([], iter_rules e) (\<lambda>rules.
             (let verify_routes = verify_routes_of rules in
              if length verify_routes = 0 then
                ([Fail ''No /verify_signature route found!''], Inr False)
              else if length verify_routes = 1 then
                after_lines
                  [Ok (''Only ONE /verify_signature route exists: ''
                       @ repr_route (verify_routes ! 0))]
                  (if str_in ''POST'' (methods (verify_routes ! 0)) then
                     ([Ok ''Route accepts POST method''], Inr True)
                   else
                     ([Fail (''Route does not accept POST: '' @ methods (verify_routes ! 0))],
                      Inr False))
              else
                (Fail (''Found '' @ str_nat (length verify_routes)
                       @ '' duplicate /verify_signature routes:'')
                 # map (\<lambda>r. Info (''  - '' @ endpoint r @ '' '' @ methods r @ '' '' @ path r))
                     verify_routes,
                 Inr False)))))
          (error_handler ''Error testing routes: ''))"

definition test_verify_signature_function :: "cenv \<Rightarrow> rule_run" where
  "test_verify_signature_function e =
     after_lines [Test ''Issue #1: Verify signature function is unique'']
       (try_except
          (bind ([], import_app_module e) (\<lambda>app_module.
             (let verify_funcs =
                    map fst (filter (\<lambda>(name, isfunction). isfunction \<and> str_in ''verify_signature'' name)
                               (getmembers app_module))
              in after_lines
                   [Info (''Functions matching 'verify_signature': '' @ repr_list verify_funcs)]
                   (if ''verify_signature'' \<in> set verify_funcs then
                      after_lines [Ok ''verify_signature function exists'']
                        (if ''verify_signature_legacy'' \<in> set verify_funcs then
                           ([Fail ''verify_signature_legacy function still exists (should be deleted)''],
                            Inr False)
                         else
                           ([Ok ''verify_signature_legacy function deleted (correct)''], Inr True))
                    else
                      ([Fail ''verify_signature function not found''], Inr False)))))
          (error_handler ''Error checking functions: ''))"

subsection \<open>Issue 2\<close>

definition test_oauth_storage_postgresql :: "cenv \<Rightarrow> rule_run" where
  "test_oauth_storage_postgresql e =
     after_lines [Test ''Issue #2: OAuth storage uses PostgreSQL'']
       (try_except
          (bind ([], import_app_module e) (\<lambda>app_module.
           bind (attempt (import_db_storage e)) (\<lambda>_.
           bind ([], getsource app_module ''ClientManager.register_client'') (\<lambda>source.
             if str_in ''store_oauth_client'' source then
               after_lines
                 [Ok ''ClientManager.register_client uses store_oauth_client() (PostgreSQL)'']
                 (if str_in ''get_storage()'' source then
                    ([Fail ''ClientManager.register_client still uses get_storage() (in-memory)''],
                     Inr False)
                  else
                    after_lines
                      [Ok ''ClientManager.register_client does NOT use get_storage() (correct)'']
                      (bind ([], getsource app_module ''ClientManager.authenticate_client'')
                         (\<lambda>source.
                            if str_in ''get_oauth_client'' source then
                              after_lines
                                [Ok ''ClientManager.authenticate_client uses get_oauth_client() (PostgreSQL)'']
                                (if str_in ''get_storage()'' source then
                                   ([Fail ''ClientManager.authenticate_client still uses get_storage()''],
                                    Inr False)
                                 else
                                   ([Ok ''ClientManager.authenticate_client does NOT use get_storage() (correct)''],
                                    Inr True))
                            else
                              ([Fail ''ClientManager.authenticate_client does NOT use get_oauth_client()''],
                               Inr False))))
             else
               ([Fail ''ClientManager.register_client does NOT use store_oauth_client()''],
                Inr False)))))
          (error_handler ''Error testing OAuth storage: ''))"

definition test_oauth_code_storage :: "cenv \<Rightarrow> rule_run" where
  "test_oauth_code_storage e =
     after_lines [Test ''Issue #2: OAuth authorization codes use PostgreSQL'']
       (try_except
          (bind ([], import_app_module e) (\<lambda>app_module.
           bind ([], getsource app_module ''OAuthServer.authorization_endpoint'') (\<lambda>source.
             if str_in ''store_oauth_code'' source then
               after_lines
                 [Ok ''OAuthServer.authorization_endpoint uses store_oauth_code() (PostgreSQL)'']
                 (if str_in ''get_storage()'' source then
                    ([Fail ''OAuthServer.authorization_endpoint still uses get_storage()''],
                     Inr False)
                  else
                    after_lines
                      [Ok ''OAuthServer.authorization_endpoint does NOT use get_storage() (correct)'']
                      (bind ([], getsource app_module ''OAuthServer._handle_code_grant'')
                         (\<lambda>source.
                            if str_in ''get_oauth_code'' source then
                              after_lines
                                [Ok ''OAuthServer._handle_code_grant uses get_oauth_code() (PostgreSQL)'']
                                (if str_in ''delete_oauth_code'' source then
                                   ([Ok ''OAuthServer._handle_code_grant uses delete_oauth_code() (PostgreSQL)''],
                                    Inr True)
                                 else
                                   ([Fail ''OAuthServer._handle_code_grant does NOT use delete_oauth_code()''],
                                    Inr False))
                            else
                              ([Fail ''OAuthServer._handle_code_grant does NOT use get_oauth_code()''],
                               Inr False))))
             else
               ([Fail ''OAuthServer.authorization_endpoint does NOT use store_oauth_code()''],
                Inr False))))
          (error_handler ''Error testing OAuth code storage: ''))"

subsection \<open>Issue 3\<close>

text \<open>The loop over the required names, which returns at the first one that is missing.\<close>

fun require_funcs :: "app_module \<Rightarrow> string list \<Rightarrow> line list \<times> bool" where
  "require_funcs m [] = ([], True)"
| "require_funcs m (func_name # rest) =
     (if hasattr m func_name then
        (let r = require_funcs m rest
         in (Ok (func_name @ ''() function exists'') # fst r, snd r))
      else ([Fail (func_name @ ''() function NOT found'')], False))"

definition test_chat_history_redis_functions :: "cenv \<Rightarrow> rule_run" where
  "test_chat_history_redis_functions e =
     after_lines [Test ''Issue #3: Chat history Redis functions exist'']
       (try_except
          (bind ([], import_app_module e) (\<lambda>app_module.
             (let funcs_required = [''get_chat_history'', ''add_chat_message'',
                                    ''purge_old_chat_messages''];
                  found = require_funcs app_module funcs_required
              in after_lines (fst found)
                   (if \<not> snd found then ([], Inr False)
                    else
                      bind ([], getsource app_module ''get_chat_history'') (\<lambda>source.
                        if str_in ''get_redis()'' source then
                          after_lines
                            [Ok ''get_chat_history() uses get_redis()'',
                             if str_in ''redis_client.lrange'' source
                             then Ok ''get_chat_history() uses Redis LRANGE (correct)''
                             else Warn ''get_chat_history() may not use Redis LRANGE'']
                            (bind ([], getsource app_module ''add_chat_message'') (\<lambda>source.
                               if str_in ''get_redis()'' source then
                                 ([Ok ''add_chat_message() uses get_redis()'',
                                   if str_in ''redis_client.lpush'' source
                                   then Ok ''add_chat_message() uses Redis LPUSH (correct)''
                                   else Warn ''add_chat_message() may not use Redis LPUSH'',
                                   if str_in ''redis_client.ltrim'' source
                                   then Ok ''add_chat_message() uses Redis LTRIM for size limit (correct)''
                                   else Warn ''add_chat_message() may not use Redis LTRIM''],
                                  Inr True)
                               else
                                 ([Fail ''add_chat_message() does NOT use get_redis()''],
                                  Inr False)))
                        else
                          ([Fail ''get_chat_history() does NOT use get_redis()''], Inr False))))))
          (error_handler ''Error testing chat history functions: ''))"

text \<open>
  One pass of the loop over \<open>enumerate(lines, 1)\<close>: \<open>in_function\<close> (\<open>None\<close> at the start)
  and the list \<open>bad_appends\<close>. The membership test on the slice of \<open>lines\<close> compares
  whole lines.
\<close>

definition handler_scan_step :: "string list \<Rightarrow> bool option \<times> (nat \<times> string) list \<Rightarrow> nat \<times> string \<Rightarrow> bool option \<times> (nat \<times> string) list" where
  "handler_scan_step lines st entry =
     (case entry of (i, line) \<Rightarrow>
        (let in_function =
               (if str_in ''def add_chat_message'' line \<or> str_in ''def purge_old_chat_messages'' line
                then Some True
                else if prefix ''def '' line \<or> prefix ''class '' line then Some False
                else fst st);
             bad_appends =
               (if str_in ''CHAT_HISTORY.append'' line \<and> in_function \<noteq> Some True
                   \<and> \<not> str_in ''# Fallback'' line
                   \<and> ''add_chat_message'' \<notin> set (slice (i - 10) i lines)
                then snd st @ [(i, strip line)] else snd st)
         in (in_function, bad_appends)))"

definition test_chat_message_handler :: "cenv \<Rightarrow> rule_run" where
  "test_chat_message_handler e =
     after_lines [Test ''Issue #3: WebSocket handler uses new chat functions'']
       (try_except
          (bind (attempt (import_flask_app e)) (\<lambda>_.
           bind ([], import_app_module e) (\<lambda>app_module.
           bind ([], file_read e ''app/app.py'') (\<lambda>source.
             if str_in ''add_chat_message('' source then
               (let lines = split nl source;
                    bad_appends =
                      snd (foldl (handler_scan_step lines) (None, []) (enumerate_from 1 lines))
                in (Ok ''WebSocket handler uses add_chat_message() (correct)''
                    # (if bad_appends \<noteq> [] then
                         Warn (''Found '' @ str_nat (length bad_appends)
                               @ '' direct CHAT_HISTORY.append calls outside helper functions:'')
                         # map (\<lambda>(line_num, line). Info (''  Line '' @ str_nat line_num @ '': '' @ line))
                             (take 3 bad_appends)
                       else
                         [Ok ''No direct CHAT_HISTORY.append calls outside helper functions (correct)'']),
                    Inr True))
             else
               ([Fail ''WebSocket handler does NOT use add_chat_message()''], Inr False)))))
          (error_handler ''Error testing message handler: ''))"

definition test_chat_history_deprecated :: "cenv \<Rightarrow> rule_run" where
  "test_chat_history_deprecated e =
     after_lines [Test ''Issue #3: CHAT_HISTORY marked as DEPRECATED'']
       (try_except
          (bind ([], file_read e ''app/app.py'') (\<lambda>source.
             if str_in ''DEPRECATED'' source \<and> str_in ''CHAT_HISTORY'' source
                \<and> (let lines = split nl source
                    in chat_history_marked lines (enumerate_from 0 lines))
             then ([Ok ''CHAT_HISTORY is marked as DEPRECATED (correct)''], Inr True)
             else ([Warn ''CHAT_HISTORY may not be clearly marked as DEPRECATED''], Inr True)))
          (\<lambda>x. ([Fail (''Error checking DEPRECATED marking: '' @ str_exn x)], Inr False)))"

subsection \<open>\<open>main\<close> of tests/test\_critical\_fixes.py\<close>

definition all_tests :: "(string \<times> (cenv \<Rightarrow> rule_run)) list" where
  "all_tests =
     [(''Issue #1: No duplicate routes'', test_no_duplicate_verify_signature),
      (''Issue #1: Function uniqueness'', test_verify_signature_function),
      (''Issue #2: OAuth client storage'', test_oauth_storage_postgresql),
      (''Issue #2: OAuth code storage'', test_oauth_code_storage),
      (''Issue #3: Redis functions'', test_chat_history_redis_functions),
      (''Issue #3: Message handler'', test_chat_message_handler),
      (''Issue #3: Deprecation marking'', test_chat_history_deprecated)]"

text \<open>Here \<open>failed\<close> is counted, not subtracted.\<close>

definition critical_failed_count :: "results \<Rightarrow> nat" where
  "critical_failed_count rs = length (filter (\<lambda>r. \<not> r) (map snd rs))"

definition critical_status_line :: "string \<times> bool \<Rightarrow> line" where
  "critical_status_line entry =
     (case entry of (test_name, result) \<Rightarrow>
        Print ((if result then ''PASS'' else ''FAIL'') @ '' - '' @ test_name))"

definition critical_total_line :: "results \<Rightarrow> line" where
  "critical_total_line rs =
     Print (nl # ''Total: '' @ str_nat (passed_count rs) @ ''/'' @ str_nat (total_count rs)
            @ '' passed, '' @ str_nat (critical_failed_count rs) @ ''/''
            @ str_nat (total_count rs) @ '' failed'')"

definition critical_summary :: "results \<Rightarrow> line list \<times> int" where
  "critical_summary rs =
     ([Print (nl # bar), Print ''Test Summary'', Print bar]
      @ map critical_status_line rs
      @ [critical_total_line rs]
      @ (if critical_failed_count rs = 0
         then [Print (nl # ''All tests passed! Critical fixes are working correctly.'')]
         else [Print (nl # str_nat (critical_failed_count rs)
                      @ '' test(s) failed. Please review the output above.'')]),
      if critical_failed_count rs = 0 then 0 else 1)"

definition critical_main :: "cenv \<Rightarrow> line list \<times> int" where
  "critical_main e =
     (let banner = [Print bar, Print ''HODLXXI Critical Fixes Test Suite'',
                    Print ''Testing Issues #1, #2, #3'', Print bar];
          ran = run_tests e all_tests ([], []);
          report = critical_summary (snd ran)
      in (banner @ fst ran @ fst report, snd report))"

section \<open>wsgi.py\<close>

text \<open>
  Objects are references. Loading the module: it puts its directory on \<open>sys.path\<close> when
  absent, imports \<open>app\<close> from \<open>app.app\<close>, calls \<open>app.run()\<close> when run as a script, and
  binds \<open>application\<close>. The outcome is the loaded module (of its namespace, the names
  bound to the application; \<open>os\<close>, \<open>sys\<close> and \<open>BASE\<close> are left out), or the exception
  raised; \<open>None\<close> when \<open>app.run()\<close> does not return.
\<close>

type_synonym ref = nat

datatype run_outcome = Returns | Raises py_exn | Serves_forever

record wsgi_env =
  dunder_name :: string
  dunder_file_dir :: string
  sys_path :: "string list"
  import_app :: "string list \<Rightarrow> py_exn + ref"
  app_run :: "ref \<Rightarrow> run_outcome"

record wsgi_module =
  namespace :: "string \<rightharpoonup> ref"
  sys_path_after :: "string list"

text \<open>\<open>application = app\<close>: the name \<open>app\<close> is looked up in the namespace.\<close>

definition bind_application :: "wsgi_module \<Rightarrow> py_exn + wsgi_module" where
  "bind_application m =
     (case namespace m ''app'' of
        None \<Rightarrow> Inl (PyExc ''name 'app' is not defined'')
      | Some v \<Rightarrow> Inr (m\<lparr>namespace := (namespace m)(''application'' \<mapsto> v)\<rparr>))"

definition load_wsgi :: "wsgi_env \<Rightarrow> (py_exn + wsgi_module) option" where
  "load_wsgi e =
     (let BASE = dunder_file_dir e;
          path = (if BASE \<notin> set (sys_path e) then BASE # sys_path e else sys_path e)
      in case import_app e path of
           Inl x \<Rightarrow> Some (Inl x)
         | Inr app \<Rightarrow>
             (let m = \<lparr>namespace = [''app'' \<mapsto> app], sys_path_after = path\<rparr>
              in if dunder_name e = ''__main__'' then
                   (case app_run e app of
                      Returns \<Rightarrow> Some (bind_application m)
                    | Raises x \<Rightarrow> Some (Inl x)
                    | Serves_forever \<Rightarrow> None)
                 else Some (bind_application m)))"

section \<open>Verdicts\<close>

text \<open>
  What the runner stores for a rule: the boolean it returned, \<open>False\<close> when it raised;
  and the two lines the runner prints when it raised.
\<close>

definition recorded :: "rule_run \<Rightarrow> bool" where
  "recorded run = (case snd run of Inl x \<Rightarrow> False | Inr r \<Rightarrow> r)"

definition crash_lines :: "rule_run \<Rightarrow> line list" where
  "crash_lines run =
     (case snd run of
        Inl x \<Rightarrow> [Fail (''Test crashed: '' @ str_exn x), Traceback x]
      | Inr r \<Rightarrow> [])"

text \<open>The number of rules of a catalog whose verdict in a run is FAIL.\<close>

definition fail_verdicts :: "'e \<Rightarrow> (string \<times> ('e \<Rightarrow> rule_run)) list \<Rightarrow> nat" where
  "fail_verdicts e catalog = length (filter (\<lambda>(name, t). \<not> recorded (t e)) catalog)"


fun is_warn :: "line \<Rightarrow> bool" where
  "is_warn (Warn msg) = True"
| "is_warn other = False"

fun is_fail :: "line \<Rightarrow> bool" where
  "is_fail (Fail msg) = True"
| "is_fail other = False"



section \<open>Concrete runs\<close>

text \<open>A project root that exists, with a target file of the given text.\<close>

definition text_env :: "string \<Rightarrow> env" where
  "text_env source = \<lparr>chdir = (\<lambda>p. None), open_read = (\<lambda>p. Inr source)\<rparr>"

definition empty_source_env :: env where
  "empty_source_env = text_env []"

text \<open>A project root that exists, where no file can be opened.\<close>

definition no_such_file :: "string \<Rightarrow> py_exn" where
  "no_such_file p = PyExc (''[Errno 2] No such file or directory: '' @ repr_str p)"

definition missing_file_env :: env where
  "missing_file_env =
     \<lparr>chdir = (\<lambda>p. None),
      open_read = (\<lambda>p. Inl (no_such_file p))\<rparr>"

text \<open>A machine without the project root: \<open>os.chdir\<close> raises, and so does every read.\<close>

definition no_root_env :: env where
  "no_root_env =
     \<lparr>chdir = (\<lambda>p. Some (no_such_file p)),
      open_read = (\<lambda>p. Inl (no_such_file p))\<rparr>"

text \<open>The route declaration, once, twice on one line, and twice on two lines.\<close>

definition route_decl :: string where
  "route_decl = ''@app.route('/verify_signature')''"

definition one_route_env :: env where
  "one_route_env = text_env route_decl"

definition two_routes_env :: env where
  "two_routes_env = text_env (route_decl @ route_decl)"

definition two_routes_apart_env :: env where
  "two_routes_apart_env = text_env (route_decl @ [nl] @ route_decl)"

text \<open>
  A target file whose last declaration is the handler of \<open>/verify_signature\<close>:
  \<^verbatim>\<open>
  @app.route('/verify_signature')
  def verify_signature():
      return _finish_login()
  \<close>
  and the same file with one more function after it.
\<close>

definition handler_last :: string where
  "handler_last =
     route_decl @ [nl] @ ''def verify_signature():'' @ [nl]
     @ ''    return _finish_login()'' @ [nl]"

definition handler_last_env :: env where
  "handler_last_env = text_env handler_last"

definition handler_followed_env :: env where
  "handler_followed_env = text_env (handler_last @ ''def f():'' @ [nl] @ ''    pass'' @ [nl])"

text \<open>
  Target files with calls of \<open>get_storage()\<close>: one on line 10 after nine empty lines,
  and one on each of the lines 1 to 4.
\<close>

definition call_on_line_10_env :: env where
  "call_on_line_10_env = text_env (replicate 9 nl @ ''x = get_storage()'' @ [nl])"

definition four_calls_env :: env where
  "four_calls_env =
     text_env (''a = get_storage()'' @ [nl] @ ''b = get_storage()'' @ [nl]
               @ ''c = get_storage()'' @ [nl] @ ''d = get_storage()'' @ [nl])"

text \<open>Route tables for the dynamic rule, in an application that imports.\<close>

definition routes_env :: "url_rule list \<Rightarrow> cenv" where
  "routes_env rules =
     \<lparr>import_flask_app = None,
      iter_rules = Inr rules,
      import_app_module = Inl (PyExc ''No module named flask''),
      import_db_storage = None,
      file_read = (\<lambda>p. Inl (no_such_file p))\<rparr>"

definition static_rule :: url_rule where
  "static_rule =
     \<lparr>rule_endpoint = ''static'', rule_methods = {|''GET'', ''HEAD'', ''OPTIONS''|},
      rule_path = ''/static/<path:filename>''\<rparr>"

definition post_rule :: url_rule where
  "post_rule =
     \<lparr>rule_endpoint = ''verify_signature'', rule_methods = {|''OPTIONS'', ''POST''|},
      rule_path = ''/verify_signature''\<rparr>"

definition get_rule :: url_rule where
  "get_rule =
     \<lparr>rule_endpoint = ''verify_signature_legacy'',
      rule_methods = {|''GET'', ''HEAD'', ''OPTIONS''|},
      rule_path = ''/verify_signature''\<rparr>"

text \<open>
  An application on which no rule of the dynamic script fails: every function has the
  same source text, and the target file is one line.
\<close>

definition passing_module :: app_module where
  "passing_module =
     \<lparr>getmembers = [(''app'', False), (''verify_signature'', True)],
      hasattr = (\<lambda>name. True),
      getsource = (\<lambda>name. Inr (''get_redis() store_oauth_client get_oauth_client ''
                                  @ ''store_oauth_code get_oauth_code delete_oauth_code''))\<rparr>"

definition passing_cenv :: cenv where
  "passing_cenv =
     \<lparr>import_flask_app = None,
      iter_rules = Inr [static_rule, post_rule],
      import_app_module = Inr passing_module,
      import_db_storage = None,
      file_read = (\<lambda>p. Inr ''add_chat_message(msg)'')\<rparr>"

text \<open>The shim loaded by a server under the name \<open>wsgi\<close>; the application is object 7.\<close>

definition served_env :: wsgi_env where
  "served_env =
     \<lparr>dunder_name = ''wsgi'', dunder_file_dir = ''/srv/chat'', sys_path = [''/usr/lib/python3''],
      import_app = (\<lambda>p. if ''/srv/chat'' \<in> set p then Inr 7
                         else Inl (PyExc ''No module named app'')),
      app_run = (\<lambda>r. Serves_forever)\<rparr>"

section \<open>The runner\<close>

lemma update_fresh: "k \<notin> fst ` set rs \<Longrightarrow> AList.update k v rs = rs @ [(k, v)]"
  by (induction rs) auto

lemma run_tests_output:
  "fst (run_tests e ts acc) =
     fst acc @ concat (map (\<lambda>(name, t). fst (t e) @ crash_lines (t e)) ts)"
  by (induction ts arbitrary: acc) (auto simp: crash_lines_def split: sum.splits)

lemma run_tests_results:
  "distinct (map fst ts) \<Longrightarrow> fst ` set (snd acc) \<inter> fst ` set ts = {} \<Longrightarrow>
   snd (run_tests e ts acc) = snd acc @ map (\<lambda>(name, t). (name, recorded (t e))) ts"
proof (induction ts arbitrary: acc)
  case Nil
  then show ?case by simp
next
  case (Cons a ts)
  obtain name t where a: "a = (name, t)" by (cases a)
  have fresh: "name \<notin> fst ` set (snd acc)" using Cons.prems a by auto
  let ?acc' = "(case snd (t e) of
        Inr r \<Rightarrow> (fst acc @ fst (t e), AList.update name r (snd acc))
      | Inl x \<Rightarrow> (fst acc @ fst (t e) @ [Fail (''Test crashed: '' @ str_exn x), Traceback x],
             AList.update name False (snd acc)))"
  have step: "run_tests e (a # ts) acc = run_tests e ts ?acc'"
    by (simp add: a split: sum.splits)
  have snd': "snd ?acc' = snd acc @ [(name, recorded (t e))]"
    using fresh by (simp add: recorded_def update_fresh split: sum.splits)
  have i: "fst ` set (snd ?acc') \<inter> fst ` set ts = {}"
    using Cons.prems a by (auto simp: snd')
  have d: "distinct (map fst ts)" using Cons.prems by simp
  have "snd (run_tests e (a # ts) acc) = snd (run_tests e ts ?acc')"
    by (simp only: step)
  also have "\<dots> = snd ?acc' @ map (\<lambda>(name, t). (name, recorded (t e))) ts"
    by (rule Cons.IH[OF d i])
  also have "\<dots> = (snd acc @ [(name, recorded (t e))]) @ map (\<lambda>(name, t). (name, recorded (t e))) ts"
    by (simp only: snd')
  also have "\<dots> = snd acc @ map (\<lambda>(name, t). (name, recorded (t e))) (a # ts)"
    by (simp add: a)
  finally show ?case .
qed

lemma run_tests_from_empty:
  "distinct (map fst ts) \<Longrightarrow>
   snd (run_tests e ts ([], [])) = map (\<lambda>(name, t). (name, recorded (t e))) ts"
  using run_tests_results[of ts "([], [])" e] by simp

lemma tests_distinct: "distinct (map fst tests)"
  by (simp add: tests_def)

lemma all_tests_distinct: "distinct (map fst all_tests)"
  by (simp add: all_tests_def)

lemma length_tests: "length tests = 14"
  by (simp add: tests_def)

lemma length_all_tests: "length all_tests = 7"
  by (simp add: all_tests_def)

lemma lookup_recorded:
  assumes "distinct (map fst ts)" and "(name, t) \<in> set ts"
  shows "map_of (map (\<lambda>(name, t). (name, recorded (t e))) ts) name = Some (recorded (t e))"
proof -
  have "distinct (map fst (map (\<lambda>(name, t). (name, recorded (t e))) ts))"
    using assms(1) by (simp add: case_prod_unfold comp_def)
  moreover have "(name, recorded (t e)) \<in> set (map (\<lambda>(name, t). (name, recorded (t e))) ts)"
    using assms(2) by force
  ultimately show ?thesis by (rule map_of_is_SomeI)
qed

section \<open>The counts of the summary\<close>

lemma passed_plus_failed:
  "passed_count (map (\<lambda>(name, t). (name, recorded (t e))) ts) + fail_verdicts e ts = length ts"
  by (induction ts) (auto simp: passed_count_def fail_verdicts_def)

lemma passed_count_recorded:
  "passed_count (map (\<lambda>(name, t). (name, recorded (t e))) ts) = length ts - fail_verdicts e ts"
  using passed_plus_failed[of e ts] by simp

lemma failed_count_recorded:
  "failed_count (map (\<lambda>(name, t). (name, recorded (t e))) ts) = int (fail_verdicts e ts)"
  using passed_plus_failed[of e ts] by (simp add: failed_count_def total_count_def)

lemma critical_failed_count_recorded:
  "critical_failed_count (map (\<lambda>(name, t). (name, recorded (t e))) ts) = fail_verdicts e ts"
  by (induction ts) (auto simp: critical_failed_count_def fail_verdicts_def)

lemma str_int_int: "str_int (int n) = str_nat n"
  by (simp add: str_int_def)

lemma str_nat_14: "str_nat 14 = ''14''"
  by code_simp

lemma str_nat_7: "str_nat 7 = ''7''"
  by code_simp

lemma main_exit_code:
  assumes "chdir e ''/home/user/The-Universal-Bitcoin-Identity-Layer'' = None"
  shows "snd (main e) = Inr (if fail_verdicts e tests = 0 then 0 else 1)"
  using assms
  by (simp add: main_def Let_def summary_def run_tests_from_empty[OF tests_distinct]
        failed_count_recorded)

lemma main_result_line:
  assumes "chdir e ''/home/user/The-Universal-Bitcoin-Identity-Layer'' = None"
  shows "Print (nl # ''Result: '' @ str_nat (14 - fail_verdicts e tests) @ ''/14 passed, ''
                @ str_nat (fail_verdicts e tests) @ ''/14 failed'') \<in> set (fst (main e))"
proof -
  let ?rs = "map (\<lambda>(name, t). (name, recorded (t e))) tests"
  have "result_line ?rs \<in> set (fst (main e))"
    using assms
    by (simp add: main_def Let_def summary_def run_tests_from_empty[OF tests_distinct])
  moreover have "result_line ?rs =
      Print (nl # ''Result: '' @ str_nat (14 - fail_verdicts e tests) @ ''/14 passed, ''
             @ str_nat (fail_verdicts e tests) @ ''/14 failed'')"
    by (simp add: result_line_def failed_count_recorded passed_count_recorded total_count_def
          str_int_int length_tests str_nat_14)
  ultimately show ?thesis by simp
qed

lemma critical_main_exit_code:
  "snd (critical_main ce) = (if fail_verdicts ce all_tests = 0 then 0 else 1)"
  by (simp add: critical_main_def Let_def critical_summary_def
        run_tests_from_empty[OF all_tests_distinct] critical_failed_count_recorded)

lemma critical_main_total_line:
  "Print (nl # ''Total: '' @ str_nat (7 - fail_verdicts ce all_tests) @ ''/7 passed, ''
          @ str_nat (fail_verdicts ce all_tests) @ ''/7 failed'') \<in> set (fst (critical_main ce))"
proof -
  let ?rs = "map (\<lambda>(name, t). (name, recorded (t ce))) all_tests"
  have "critical_total_line ?rs \<in> set (fst (critical_main ce))"
    by (simp add: critical_main_def Let_def critical_summary_def
          run_tests_from_empty[OF all_tests_distinct])
  moreover have "critical_total_line ?rs =
      Print (nl # ''Total: '' @ str_nat (7 - fail_verdicts ce all_tests) @ ''/7 passed, ''
             @ str_nat (fail_verdicts ce all_tests) @ ''/7 failed'')"
    by (simp add: critical_total_line_def critical_failed_count_recorded passed_count_recorded
          total_count_def length_all_tests str_nat_7)
  ultimately show ?thesis by simp
qed

section \<open>Isolation of the rules\<close>

text \<open>
  Claim C1. In a catalog of N rules with distinct names (both scripts have one), a rule
  whose call raises is recorded as FAIL with a \<open>Test crashed\<close> line, every rule of the
  catalog is called and what it printed is in the output, every other rule is recorded
  with what it returned, and the total of the summary is N.
\<close>

theorem rule_isolation:
  assumes "distinct (map fst catalog)"
  shows "(let ran = run_tests e catalog ([], []) in
           total_count (snd ran) = length catalog
         \<and> map fst (snd ran) = map fst catalog
         \<and> (\<forall>(name, t) \<in> set catalog.
              set (fst (t e)) \<subseteq> set (fst ran)
            \<and> (\<forall>x. snd (t e) = Inl x \<longrightarrow>
                  map_of (snd ran) name = Some False
                \<and> Fail (''Test crashed: '' @ str_exn x) \<in> set (fst ran))
            \<and> (\<forall>r. snd (t e) = Inr r \<longrightarrow> map_of (snd ran) name = Some r)))"
proof -
  let ?ran = "run_tests e catalog ([], [])"
  let ?f = "\<lambda>(name, t). (name, recorded (t e))"
  have rs: "snd ?ran = map ?f catalog"
    by (rule run_tests_from_empty[OF assms])
  have out: "fst ?ran = concat (map (\<lambda>(name, t). fst (t e) @ crash_lines (t e)) catalog)"
    by (simp add: run_tests_output)
  have total: "total_count (snd ?ran) = length catalog"
    by (simp add: rs total_count_def)
  have names: "map fst (snd ?ran) = map fst catalog"
    by (simp add: rs case_prod_unfold comp_def)
  have each: "set (fst (t e)) \<subseteq> set (fst ?ran)
            \<and> (\<forall>x. snd (t e) = Inl x \<longrightarrow>
                  map_of (snd ?ran) name = Some False
                \<and> Fail (''Test crashed: '' @ str_exn x) \<in> set (fst ?ran))
            \<and> (\<forall>r. snd (t e) = Inr r \<longrightarrow> map_of (snd ?ran) name = Some r)"
    if mem: "(name, t) \<in> set catalog" for name t
  proof -
    have look: "map_of (snd ?ran) name = Some (recorded (t e))"
      unfolding rs by (rule lookup_recorded[OF assms mem])
    have sub: "set (fst (t e) @ crash_lines (t e)) \<subseteq> set (fst ?ran)"
      unfolding out using mem by force
    show ?thesis
      using look sub by (auto simp: recorded_def crash_lines_def)
  qed
  show ?thesis
    unfolding Let_def using total names each by blast
qed

lemma every_rule_raises_without_file:
  "list_all (\<lambda>(name, t). snd (t missing_file_env)
      = Inl (no_such_file ''app/app.py'')) tests"
  by code_simp

theorem rule_isolation_witness:
  "distinct (map fst tests)
   \<and> snd (test_issue1_finish_login_used missing_file_env)
       = Inl (no_such_file ''app/app.py'')
   \<and> total_count (snd (run_tests missing_file_env tests ([], []))) = 14
   \<and> map_of (snd (run_tests missing_file_env tests ([], []))) ''test_issue1_finish_login_used''
       = Some False
   \<and> Fail (''Test crashed: '' @ str_exn (no_such_file ''app/app.py''))
       \<in> set (fst (run_tests missing_file_env tests ([], [])))
   \<and> Test ''Issue #3: CHAT_HISTORY marked DEPRECATED''
       \<in> set (fst (run_tests missing_file_env tests ([], [])))"
proof -
  have raises: "snd (test_issue1_finish_login_used missing_file_env)
       = Inl (no_such_file ''app/app.py'')"
    by code_simp
  have m3: "(''test_issue1_finish_login_used'', test_issue1_finish_login_used) \<in> set tests"
    by (simp add: tests_def)
  have m14: "(''test_issue3_chat_history_deprecated'', test_issue3_chat_history_deprecated)
       \<in> set tests"
    by (simp add: tests_def)
  have header: "Test ''Issue #3: CHAT_HISTORY marked DEPRECATED''
       \<in> set (fst (test_issue3_chat_history_deprecated missing_file_env))"
    by code_simp
  note iso = rule_isolation[OF tests_distinct, of missing_file_env, unfolded Let_def]
  from iso have total: "total_count (snd (run_tests missing_file_env tests ([], []))) = 14"
    by (simp add: length_tests)
  from iso m3 raises
  have crashed: "map_of (snd (run_tests missing_file_env tests ([], [])))
        ''test_issue1_finish_login_used'' = Some False
      \<and> Fail (''Test crashed: '' @ str_exn (no_such_file ''app/app.py''))
        \<in> set (fst (run_tests missing_file_env tests ([], [])))"
    by blast
  from iso m14 header
  have last: "Test ''Issue #3: CHAT_HISTORY marked DEPRECATED''
       \<in> set (fst (run_tests missing_file_env tests ([], [])))"
    by blast
  show ?thesis
    using tests_distinct raises total crashed last by blast
qed

section \<open>The exit code\<close>

text \<open>
  Claim C2, as the claim states it, fails for the static script on a machine without the
  project root: \<open>os.chdir\<close> is outside the \<open>try\<close>, so its exception leaves \<open>main\<close>
  after the banner. The process ends with status 1, yet no rule was called, no failure
  line and no summary were printed.
\<close>

theorem exit_code_without_root_counterexample:
  "chdir no_root_env ''/home/user/The-Universal-Bitcoin-Identity-Layer''
     = Some (no_such_file ''/home/user/The-Universal-Bitcoin-Identity-Layer'')
   \<and> main no_root_env
       = ([Print bar, Print ''HODLXXI Static Analysis Tests (Issues #1, #2, #3)'',
           Print ''No dependencies required - analyzes source code directly'', Print bar],
          Inl (no_such_file ''/home/user/The-Universal-Bitcoin-Identity-Layer''))
   \<and> exit_status (snd (main no_root_env)) = 1
   \<and> filter is_fail (fst (main no_root_env)) = []"
  by (simp add: no_root_env_def main_def exit_status_def)

text \<open>
  Claim C2, amended. In every run of the dynamic script, and in every run of the static
  script in which \<open>os.chdir\<close> to the project root succeeds, the value \<open>main\<close> returns,
  which is the exit code of the process, is 0 when no rule has the verdict FAIL and 1
  otherwise, and the failed count printed in the summary is the number of rules whose
  verdict is FAIL.
\<close>

theorem exit_code_counts_failures:
  "(chdir e ''/home/user/The-Universal-Bitcoin-Identity-Layer'' = None \<longrightarrow>
      snd (main e) = Inr (if fail_verdicts e tests = 0 then 0 else 1)
    \<and> Print (nl # ''Result: '' @ str_nat (14 - fail_verdicts e tests) @ ''/14 passed, ''
             @ str_nat (fail_verdicts e tests) @ ''/14 failed'') \<in> set (fst (main e)))
   \<and> snd (critical_main ce) = (if fail_verdicts ce all_tests = 0 then 0 else 1)
   \<and> Print (nl # ''Total: '' @ str_nat (7 - fail_verdicts ce all_tests) @ ''/7 passed, ''
            @ str_nat (fail_verdicts ce all_tests) @ ''/7 failed'') \<in> set (fst (critical_main ce))"
  using main_exit_code[of e] main_result_line[of e] critical_main_exit_code[of ce]
    critical_main_total_line[of ce]
  by blast

lemma str_nat_digits:
  "str_nat 0 = ''0''" "str_nat 1 = ''1''" "str_nat 2 = ''2''" "str_nat 6 = ''6''"
  "str_nat 8 = ''8''"
  by code_simp+

lemma empty_source_fail_verdicts: "fail_verdicts empty_source_env tests = 8"
  by code_simp

lemma passing_fail_verdicts: "fail_verdicts passing_cenv all_tests = 0"
  by code_simp

theorem exit_code_counts_failures_witness:
  "chdir empty_source_env ''/home/user/The-Universal-Bitcoin-Identity-Layer'' = None
   \<and> snd (main empty_source_env) = Inr 1
   \<and> Print (nl # ''Result: 6/14 passed, 8/14 failed'') \<in> set (fst (main empty_source_env))
   \<and> snd (critical_main passing_cenv) = 0
   \<and> Print (nl # ''Total: 7/7 passed, 0/7 failed'') \<in> set (fst (critical_main passing_cenv))"
proof -
  have h: "chdir empty_source_env ''/home/user/The-Universal-Bitcoin-Identity-Layer'' = None"
    by (simp add: empty_source_env_def text_env_def)
  show ?thesis
    using h exit_code_counts_failures[of empty_source_env passing_cenv]
    by (simp add: empty_source_fail_verdicts passing_fail_verdicts str_nat_digits str_nat_7)
qed

section \<open>Warnings\<close>








section \<open>A target file that cannot be read\<close>

lemma all_failed: "\<forall>(name, t) \<in> set ts. \<not> recorded (t e) \<Longrightarrow> fail_verdicts e ts = length ts"
  by (induction ts) (auto simp: fail_verdicts_def)

lemma all_recorded_false:
  "\<forall>(name, t) \<in> set ts. \<not> recorded (t e) \<Longrightarrow>
   map (\<lambda>(name, t). (name, recorded (t e))) ts = map (\<lambda>(name, t). (name, False)) ts"
  by (induction ts) auto

lemma read_error_raised:
  assumes "read_file e ''app/app.py'' = Inl x"
  shows "\<forall>(name, t) \<in> set tests. snd (t e) = Inl x"
  using assms
  by (simp add: tests_def after_lines_def
        test_issue1_no_duplicate_routes_def test_issue1_no_legacy_function_def
        test_issue1_finish_login_used_def test_issue2_no_get_storage_calls_def
        test_issue2_uses_store_oauth_client_def test_issue2_uses_get_oauth_client_def
        test_issue2_uses_oauth_code_functions_def test_issue2_deprecated_stores_marked_def
        test_issue3_redis_functions_exist_def test_issue3_get_redis_import_def
        test_issue3_redis_operations_used_def test_issue3_add_chat_message_used_def
        test_issue3_get_chat_history_used_def test_issue3_chat_history_deprecated_def)

lemma missing_file_read:
  "chdir missing_file_env ''/home/user/The-Universal-Bitcoin-Identity-Layer'' = None"
  "read_file missing_file_env ''app/app.py'' = Inl (no_such_file ''app/app.py'')"
  by (simp_all add: missing_file_env_def read_file_def)

lemma missing_file_fail_verdicts: "fail_verdicts missing_file_env tests = 14"
proof -
  have "\<forall>(name, t) \<in> set tests. \<not> recorded (t missing_file_env)"
    using read_error_raised[OF missing_file_read(2)] by (auto simp: recorded_def)
  then show ?thesis by (simp add: all_failed length_tests)
qed

lemma last_header_printed:
  assumes "chdir e ''/home/user/The-Universal-Bitcoin-Identity-Layer'' = None"
  shows "Test ''Issue #3: CHAT_HISTORY marked DEPRECATED'' \<in> set (fst (main e))"
proof -
  have "Test ''Issue #3: CHAT_HISTORY marked DEPRECATED''
          \<in> set (fst (test_issue3_chat_history_deprecated e))"
    by (simp add: test_issue3_chat_history_deprecated_def after_lines_def)
  moreover have "(''test_issue3_chat_history_deprecated'', test_issue3_chat_history_deprecated)
          \<in> set tests"
    by (simp add: tests_def)
  ultimately have "Test ''Issue #3: CHAT_HISTORY marked DEPRECATED''
          \<in> set (fst (run_tests e tests ([], [])))"
    unfolding run_tests_output by force
  then show ?thesis
    using assms by (simp add: main_def Let_def)
qed

text \<open>
  Claim C4, as the claim states it, fails where the project root exists and the target
  file does not: the read error is raised inside the first rule, yet \<open>main\<close> returns
  the exit code 1 instead of raising, the runner has an entry for each of the 14 rules,
  and the header of the last rule is printed.
\<close>

theorem read_error_fatal_counterexample:
  "read_file missing_file_env ''app/app.py'' = Inl (no_such_file ''app/app.py'')
   \<and> snd (test_issue1_no_duplicate_routes missing_file_env) = Inl (no_such_file ''app/app.py'')
   \<and> snd (main missing_file_env) = Inr 1
   \<and> map fst (snd (run_tests missing_file_env tests ([], []))) = map fst tests
   \<and> Test ''Issue #3: CHAT_HISTORY marked DEPRECATED'' \<in> set (fst (main missing_file_env))"
proof -
  have "snd (test_issue1_no_duplicate_routes missing_file_env) = Inl (no_such_file ''app/app.py'')"
    using read_error_raised[OF missing_file_read(2)] by (simp add: tests_def)
  moreover have "snd (main missing_file_env) = Inr 1"
    by (simp add: main_exit_code[OF missing_file_read(1)] missing_file_fail_verdicts)
  moreover have "map fst (snd (run_tests missing_file_env tests ([], []))) = map fst tests"
    by (simp add: run_tests_from_empty[OF tests_distinct] case_prod_unfold comp_def)
  ultimately show ?thesis
    using missing_file_read(2) last_header_printed[OF missing_file_read(1)] by blast
qed

text \<open>
  Claim C4, amended. When the project root exists and reading the target file raises,
  the error is not fatal: each of the 14 rules raises it from its own read, the runner
  records FAIL for each and goes on to the next, the summary reports 0 of 14 passed and
  14 of 14 failed, and the exit code is 1.
\<close>

theorem read_error_fails_every_rule:
  assumes "chdir e ''/home/user/The-Universal-Bitcoin-Identity-Layer'' = None"
    and "read_file e ''app/app.py'' = Inl x"
  shows "(\<forall>(name, t) \<in> set tests. snd (t e) = Inl x)
       \<and> snd (run_tests e tests ([], [])) = map (\<lambda>(name, t). (name, False)) tests
       \<and> snd (main e) = Inr 1
       \<and> Print (nl # ''Result: 0/14 passed, 14/14 failed'') \<in> set (fst (main e))"
proof -
  have raised: "\<forall>(name, t) \<in> set tests. snd (t e) = Inl x"
    by (rule read_error_raised[OF assms(2)])
  then have none: "\<forall>(name, t) \<in> set tests. \<not> recorded (t e)"
    by (auto simp: recorded_def)
  have fv: "fail_verdicts e tests = 14"
    using none by (simp add: all_failed length_tests)
  have rs: "snd (run_tests e tests ([], [])) = map (\<lambda>(name, t). (name, False)) tests"
    using none by (simp add: run_tests_from_empty[OF tests_distinct] all_recorded_false)
  have code: "snd (main e) = Inr 1"
    by (simp add: main_exit_code[OF assms(1)] fv)
  have "Print (nl # ''Result: '' @ str_nat (14 - fail_verdicts e tests) @ ''/14 passed, ''
                @ str_nat (fail_verdicts e tests) @ ''/14 failed'') \<in> set (fst (main e))"
    by (rule main_result_line[OF assms(1)])
  then have line: "Print (nl # ''Result: 0/14 passed, 14/14 failed'') \<in> set (fst (main e))"
    by (simp add: fv str_nat_digits str_nat_14)
  show ?thesis
    using raised rs code line by blast
qed

theorem read_error_fails_every_rule_witness:
  "chdir missing_file_env ''/home/user/The-Universal-Bitcoin-Identity-Layer'' = None
   \<and> read_file missing_file_env ''app/app.py'' = Inl (no_such_file ''app/app.py'')
   \<and> snd (test_issue3_chat_history_deprecated missing_file_env)
       = Inl (no_such_file ''app/app.py'')
   \<and> snd (main missing_file_env) = Inr 1
   \<and> Print (nl # ''Result: 0/14 passed, 14/14 failed'') \<in> set (fst (main missing_file_env))"
proof -
  note t = read_error_fails_every_rule[OF missing_file_read]
  have "(''test_issue3_chat_history_deprecated'', test_issue3_chat_history_deprecated)
          \<in> set tests"
    by (simp add: tests_def)
  with t have "snd (test_issue3_chat_history_deprecated missing_file_env)
       = Inl (no_such_file ''app/app.py'')"
    by blast
  then show ?thesis
    using t missing_file_read by blast
qed

section \<open>The deprecation-marker rule\<close>

lemma fail_verdicts_without:
  "\<forall>(name, t) \<in> set ts. name = k \<longrightarrow> recorded (t e) \<Longrightarrow>
   fail_verdicts e ts = fail_verdicts e (filter (\<lambda>(name, t). name \<noteq> k) ts)"
  by (induction ts) (auto simp: fail_verdicts_def)

text \<open>
  Claim C10. For every target text the rule returns \<open>True\<close> and prints no failure
  line; the runner records \<open>True\<close> for it, and the number of FAIL verdicts of the run,
  which decides the exit code, is the same as without this rule.
\<close>

theorem deprecated_stores_rule_never_fails:
  assumes "read_file e ''app/app.py'' = Inr source"
  shows "snd (test_issue2_deprecated_stores_marked e) = Inr True
       \<and> filter is_fail (fst (test_issue2_deprecated_stores_marked e)) = []
       \<and> length (filter is_warn (fst (test_issue2_deprecated_stores_marked e))
                 @ filter (\<lambda>l. case l of Ok msg \<Rightarrow> True | other \<Rightarrow> False)
                     (fst (test_issue2_deprecated_stores_marked e))) = 2
       \<and> map_of (snd (run_tests e tests ([], []))) ''test_issue2_deprecated_stores_marked''
           = Some True
       \<and> fail_verdicts e tests
           = fail_verdicts e
               (filter (\<lambda>(name, t). name \<noteq> ''test_issue2_deprecated_stores_marked'') tests)"
proof -
  have ret: "snd (test_issue2_deprecated_stores_marked e) = Inr True"
    using assms by (simp add: test_issue2_deprecated_stores_marked_def after_lines_def)
  have nofail: "filter is_fail (fst (test_issue2_deprecated_stores_marked e)) = []"
    using assms by (simp add: test_issue2_deprecated_stores_marked_def after_lines_def)
  have two: "length (filter is_warn (fst (test_issue2_deprecated_stores_marked e))
                 @ filter (\<lambda>l. case l of Ok msg \<Rightarrow> True | other \<Rightarrow> False)
                     (fst (test_issue2_deprecated_stores_marked e))) = 2"
    using assms by (simp add: test_issue2_deprecated_stores_marked_def after_lines_def)
  have rec: "recorded (test_issue2_deprecated_stores_marked e)"
    by (simp add: recorded_def ret)
  have mem: "(''test_issue2_deprecated_stores_marked'', test_issue2_deprecated_stores_marked)
          \<in> set tests"
    by (simp add: tests_def)
  have look: "map_of (snd (run_tests e tests ([], []))) ''test_issue2_deprecated_stores_marked''
           = Some True"
    using lookup_recorded[OF tests_distinct mem, of e] rec
    by (simp add: run_tests_from_empty[OF tests_distinct])
  have "\<forall>(name, t) \<in> set tests. name = ''test_issue2_deprecated_stores_marked'' \<longrightarrow> recorded (t e)"
    using rec by (simp add: tests_def)
  then have same: "fail_verdicts e tests
           = fail_verdicts e
               (filter (\<lambda>(name, t). name \<noteq> ''test_issue2_deprecated_stores_marked'') tests)"
    by (rule fail_verdicts_without)
  show ?thesis
    using ret nofail two look same by blast
qed

theorem deprecated_stores_rule_never_fails_witness:
  "read_file empty_source_env ''app/app.py'' = Inr []
   \<and> test_issue2_deprecated_stores_marked empty_source_env
       = ([Test ''Issue #2: In-memory stores marked DEPRECATED'',
           Warn ''CLIENT_STORE may not be clearly marked as DEPRECATED'',
           Warn ''AUTH_CODE_STORE may not be clearly marked as DEPRECATED''], Inr True)
   \<and> snd (test_issue2_deprecated_stores_marked empty_source_env) = Inr True
   \<and> map_of (snd (run_tests empty_source_env tests ([], [])))
         ''test_issue2_deprecated_stores_marked'' = Some True"
proof -
  have h: "read_file empty_source_env ''app/app.py'' = Inr []"
    by (simp add: empty_source_env_def text_env_def read_file_def)
  have run: "test_issue2_deprecated_stores_marked empty_source_env
       = ([Test ''Issue #2: In-memory stores marked DEPRECATED'',
           Warn ''CLIENT_STORE may not be clearly marked as DEPRECATED'',
           Warn ''AUTH_CODE_STORE may not be clearly marked as DEPRECATED''], Inr True)"
    by code_simp
  show ?thesis
    using h run deprecated_stores_rule_never_fails[OF h] by blast
qed

section \<open>The occurrence-count rule\<close>

text \<open>
  Claim C3, as the claim states it, fails for two declarations: the rule prints one
  failure line that gives their number, the same line whether the two matches are at
  positions 0 and 31 or at positions 0 and 32, and no line for a match.
\<close>

theorem duplicate_message_counterexample:
  "finditer route_pattern (route_decl @ route_decl) = [(0, 30), (31, 61)]
   \<and> finditer route_pattern (route_decl @ [nl] @ route_decl) = [(0, 30), (32, 62)]
   \<and> test_issue1_no_duplicate_routes two_routes_env
       = ([Test ''Issue #1: No duplicate /verify_signature routes'',
           Fail ''Found 2 duplicate /verify_signature routes!''], Inr False)
   \<and> test_issue1_no_duplicate_routes two_routes_apart_env
       = ([Test ''Issue #1: No duplicate /verify_signature routes'',
           Fail ''Found 2 duplicate /verify_signature routes!''], Inr False)"
  by code_simp

text \<open>
  Claim C3, amended. For every target text: exactly one match of the pattern gives PASS;
  no match gives FAIL with the message that no route was found; two or more matches
  give FAIL with a different message, which states the number of matches.
\<close>

theorem occurrence_count_rule:
  assumes "read_file e ''app/app.py'' = Inr source"
  shows "(length (findall route_pattern source) = 1 \<longrightarrow>
            test_issue1_no_duplicate_routes e
              = ([Test ''Issue #1: No duplicate /verify_signature routes'',
                  Ok ''Only ONE /verify_signature route found (correct)''], Inr True))
       \<and> (length (findall route_pattern source) = 0 \<longrightarrow>
            test_issue1_no_duplicate_routes e
              = ([Test ''Issue #1: No duplicate /verify_signature routes'',
                  Fail ''No /verify_signature route found!''], Inr False))
       \<and> (2 \<le> length (findall route_pattern source) \<longrightarrow>
            test_issue1_no_duplicate_routes e
              = ([Test ''Issue #1: No duplicate /verify_signature routes'',
                  Fail (''Found '' @ str_nat (length (findall route_pattern source))
                        @ '' duplicate /verify_signature routes!'')], Inr False)
          \<and> ''Found '' @ str_nat (length (findall route_pattern source))
                @ '' duplicate /verify_signature routes!''
              \<noteq> ''No /verify_signature route found!'')"
  using assms
  by (simp add: test_issue1_no_duplicate_routes_def after_lines_def Let_def)

lemma route_counts:
  "length (findall route_pattern route_decl) = 1"
  "length (findall route_pattern []) = 0"
  "length (findall route_pattern (route_decl @ route_decl)) = 2"
  by code_simp+

theorem occurrence_count_rule_witness:
  "read_file one_route_env ''app/app.py'' = Inr route_decl
   \<and> length (findall route_pattern route_decl) = 1
   \<and> test_issue1_no_duplicate_routes one_route_env
       = ([Test ''Issue #1: No duplicate /verify_signature routes'',
           Ok ''Only ONE /verify_signature route found (correct)''], Inr True)
   \<and> read_file empty_source_env ''app/app.py'' = Inr []
   \<and> length (findall route_pattern []) = 0
   \<and> test_issue1_no_duplicate_routes empty_source_env
       = ([Test ''Issue #1: No duplicate /verify_signature routes'',
           Fail ''No /verify_signature route found!''], Inr False)
   \<and> read_file two_routes_env ''app/app.py'' = Inr (route_decl @ route_decl)
   \<and> length (findall route_pattern (route_decl @ route_decl)) = 2
   \<and> test_issue1_no_duplicate_routes two_routes_env
       = ([Test ''Issue #1: No duplicate /verify_signature routes'',
           Fail ''Found 2 duplicate /verify_signature routes!''], Inr False)"
proof -
  have h1: "read_file one_route_env ''app/app.py'' = Inr route_decl"
    by (simp add: one_route_env_def text_env_def read_file_def)
  have h0: "read_file empty_source_env ''app/app.py'' = Inr []"
    by (simp add: empty_source_env_def text_env_def read_file_def)
  have h2: "read_file two_routes_env ''app/app.py'' = Inr (route_decl @ route_decl)"
    by (simp add: two_routes_env_def text_env_def read_file_def)
  show ?thesis
    using h1 h0 h2 occurrence_count_rule[OF h1] occurrence_count_rule[OF h0]
      occurrence_count_rule[OF h2]
    by (simp add: route_counts str_nat_digits)
qed

section \<open>The region of the handler\<close>

text \<open>
  Claim C6 against the code. In a target file whose last declaration is the handler of
  \<open>/verify_signature\<close>, the pattern has no match, since each alternative of its
  lookahead needs a further declaration: the rule reports that it could not find the
  function and fails. With one more function after the handler the region is found.
\<close>

theorem handler_region_needs_a_following_declaration:
  "re_search verify_signature_pattern handler_last = None
   \<and> test_issue1_finish_login_used handler_last_env
       = ([Test ''Issue #1: verify_signature uses _finish_login for OAuth cookies'',
           Fail ''Could not find verify_signature function''], Inr False)
   \<and> test_issue1_finish_login_used handler_followed_env
       = ([Test ''Issue #1: verify_signature uses _finish_login for OAuth cookies'',
           Ok ''verify_signature calls _finish_login (correct)''], Inr True)"
  by code_simp

section \<open>The evidence of the absence rule\<close>

text \<open>
  Claim C8 against the code. The rule fails on any match, but the lines it shows are the
  matching lines among the first nine lines of the file, not the first matches: a call
  on line 10 is reported with no line of evidence, and four calls on the lines 1 to 4
  are shown all four.
\<close>

theorem evidence_is_capped_by_line_number:
  "test_issue2_no_get_storage_calls call_on_line_10_env
     = ([Test ''Issue #2: No get_storage() calls in OAuth code'',
         Fail ''Found 1 get_storage() calls (should use db_storage)''], Inr False)
   \<and> test_issue2_no_get_storage_calls four_calls_env
     = ([Test ''Issue #2: No get_storage() calls in OAuth code'',
         Fail ''Found 4 get_storage() calls (should use db_storage)'',
         Info ''  Line 1: a = get_storage()'', Info ''  Line 2: b = get_storage()'',
         Info ''  Line 3: c = get_storage()'', Info ''  Line 4: d = get_storage()''],
        Inr False)"
  by code_simp

section \<open>The deployment shim\<close>

text \<open>
  Claim C9. When the shim has loaded, \<open>app\<close> and \<open>application\<close> are bound to the same
  object, the one imported from \<open>app.app\<close>; and it does load whenever the import
  succeeds and the module is not run as a script.
\<close>

theorem shim_exports_one_object:
  "(load_wsgi e = Some (Inr m) \<longrightarrow>
      (\<exists>app. import_app e (sys_path_after m) = Inr app
           \<and> namespace m ''app'' = Some app
           \<and> namespace m ''application'' = Some app))
   \<and> (dunder_name e \<noteq> ''__main__''
        \<and> import_app e (if dunder_file_dir e \<in> set (sys_path e) then sys_path e
                          else dunder_file_dir e # sys_path e) = Inr app'
      \<longrightarrow> (\<exists>m'. load_wsgi e = Some (Inr m')))"
  by (auto simp: load_wsgi_def bind_application_def Let_def
      split: sum.splits run_outcome.splits if_splits)

theorem shim_exports_one_object_witness:
  "dunder_name served_env \<noteq> ''__main__''
   \<and> import_app served_env [''/srv/chat'', ''/usr/lib/python3''] = Inr 7
   \<and> map_option (\<lambda>r. map_sum id (\<lambda>m. (namespace m ''app'', namespace m ''application'')) r)
        (load_wsgi served_env) = Some (Inr (Some 7, Some 7))"
proof -
  have a: "dunder_name served_env \<noteq> ''__main__''"
    by (simp add: served_env_def)
  have b: "import_app served_env [''/srv/chat'', ''/usr/lib/python3''] = Inr 7"
    by (simp add: served_env_def)
  have c: "import_app served_env
             (if dunder_file_dir served_env \<in> set (sys_path served_env) then sys_path served_env
              else dunder_file_dir served_env # sys_path served_env) = Inr 7"
    by (simp add: served_env_def)
  from shim_exports_one_object[of served_env _ 7] a c
  obtain m' where m': "load_wsgi served_env = Some (Inr m')"
    by blast
  have p: "sys_path_after m' = [''/srv/chat'', ''/usr/lib/python3'']"
    using m' by (auto simp: load_wsgi_def bind_application_def Let_def served_env_def
        split: sum.splits if_splits)
  from shim_exports_one_object[of served_env m' 7] m'
  obtain app where "import_app served_env (sys_path_after m') = Inr app"
    and "namespace m' ''app'' = Some app" and "namespace m' ''application'' = Some app"
    by blast
  then have "namespace m' ''app'' = Some 7 \<and> namespace m' ''application'' = Some 7"
    using b p by simp
  then show ?thesis
    using a b m' by simp
qed

section \<open>The route-table rule\<close>

lemma verify_routes_of_filter:
  "verify_routes_of rules =
     map to_route
       (filter (\<lambda>r. rule_endpoint r \<noteq> ''static'' \<and> rule_path r = ''/verify_signature'') rules)"
  by (induction rules) (auto simp: verify_routes_of_def to_route_def)

lemma sublist_join: "x \<in> set xs \<Longrightarrow> sublist x (join sep xs)"
proof (induction sep xs rule: join.induct)
  case (1 sep)
  then show ?case by simp
next
  case (2 sep a)
  then show ?case by simp
next
  case (3 sep a y ys)
  show ?case
  proof (cases "x = a")
    case True
    then show ?thesis by simp
  next
    case False
    then have "sublist x (join sep (y # ys))"
      using 3 by simp
    then obtain ps ss where "join sep (y # ys) = ps @ x @ ss"
      by (auto simp: sublist_def)
    then have "join sep (a # y # ys) = (a @ sep @ ps) @ x @ ss"
      by simp
    then show ?thesis
      unfolding sublist_def by blast
  qed
qed

lemma post_accepted:
  assumes "''POST'' |\<in>| rule_methods r"
  shows "str_in ''POST'' (methods (to_route r))"
proof -
  have "''POST'' |\<in>| rule_methods r |-| {|''HEAD'', ''OPTIONS''|}"
    using assms by simp
  then have "''POST'' \<in> set (sorted_list_of_fset (rule_methods r |-| {|''HEAD'', ''OPTIONS''|}))"
    by simp
  then show ?thesis
    by (simp add: to_route_def sublist_join)
qed

lemma get_only:
  assumes "rule_methods r |-| {|''HEAD'', ''OPTIONS''|} = {|''GET''|}"
  shows "methods (to_route r) = ''GET''"
  using assms by (simp add: to_route_def sorted_list_of_fset.rep_eq)

lemma route_rule_unfold:
  assumes "import_flask_app e = None" and "iter_rules e = Inr rules"
  shows "test_no_duplicate_verify_signature e =
     (let verify_routes = verify_routes_of rules in
      if length verify_routes = 0 then
        ([Test ''Issue #1: No duplicate /verify_signature routes'',
          Fail ''No /verify_signature route found!''], Inr False)
      else if length verify_routes = 1 then
        (if str_in ''POST'' (methods (verify_routes ! 0)) then
           ([Test ''Issue #1: No duplicate /verify_signature routes'',
             Ok (''Only ONE /verify_signature route exists: '' @ repr_route (verify_routes ! 0)),
             Ok ''Route accepts POST method''], Inr True)
         else
           ([Test ''Issue #1: No duplicate /verify_signature routes'',
             Ok (''Only ONE /verify_signature route exists: '' @ repr_route (verify_routes ! 0)),
             Fail (''Route does not accept POST: '' @ methods (verify_routes ! 0))], Inr False))
      else
        (Test ''Issue #1: No duplicate /verify_signature routes''
         # Fail (''Found '' @ str_nat (length verify_routes)
                 @ '' duplicate /verify_signature routes:'')
         # map (\<lambda>r. Info (''  - '' @ endpoint r @ '' '' @ methods r @ '' '' @ path r))
             verify_routes,
         Inr False))"
  using assms
  by (simp add: test_no_duplicate_verify_signature_def after_lines_def try_except_def bind_def
        attempt_def Let_def)

text \<open>
  Claim C5. With the application imported, let \<open>vs\<close> be the rules of the route table
  whose endpoint is not \<open>static\<close> and whose path is \<open>/verify_signature\<close>. One such rule
  whose method set contains POST: the rule passes, with a passing line for the method
  check. One such rule whose methods, \<open>HEAD\<close> and \<open>OPTIONS\<close> apart, are GET alone: a
  passing line for the existence, a failing line for the method check, and the rule
  fails. None, or two and more: the rule fails, with two different messages.
\<close>

theorem route_table_rule:
  assumes "import_flask_app e = None" and "iter_rules e = Inr rules"
    and "vs = filter (\<lambda>r. rule_endpoint r \<noteq> ''static'' \<and> rule_path r = ''/verify_signature'') rules"
  shows "(\<forall>r. vs = [r] \<and> ''POST'' |\<in>| rule_methods r \<longrightarrow>
            test_no_duplicate_verify_signature e
              = ([Test ''Issue #1: No duplicate /verify_signature routes'',
                  Ok (''Only ONE /verify_signature route exists: '' @ repr_route (to_route r)),
                  Ok ''Route accepts POST method''], Inr True))
       \<and> (\<forall>r. vs = [r] \<and> rule_methods r |-| {|''HEAD'', ''OPTIONS''|} = {|''GET''|} \<longrightarrow>
            test_no_duplicate_verify_signature e
              = ([Test ''Issue #1: No duplicate /verify_signature routes'',
                  Ok (''Only ONE /verify_signature route exists: '' @ repr_route (to_route r)),
                  Fail ''Route does not accept POST: GET''], Inr False))
       \<and> (vs = [] \<longrightarrow>
            test_no_duplicate_verify_signature e
              = ([Test ''Issue #1: No duplicate /verify_signature routes'',
                  Fail ''No /verify_signature route found!''], Inr False))
       \<and> (2 \<le> length vs \<longrightarrow>
            test_no_duplicate_verify_signature e
              = (Test ''Issue #1: No duplicate /verify_signature routes''
                 # Fail (''Found '' @ str_nat (length vs) @ '' duplicate /verify_signature routes:'')
                 # map (\<lambda>r. Info (''  - '' @ rule_endpoint r @ '' '' @ methods (to_route r)
                                    @ '' '' @ rule_path r)) vs,
                 Inr False)
          \<and> ''Found '' @ str_nat (length vs) @ '' duplicate /verify_signature routes:''
              \<noteq> ''No /verify_signature route found!'')"
proof -
  note unfold = route_rule_unfold[OF assms(1,2), unfolded verify_routes_of_filter Let_def,
      folded assms(3)]
  have post: "test_no_duplicate_verify_signature e
              = ([Test ''Issue #1: No duplicate /verify_signature routes'',
                  Ok (''Only ONE /verify_signature route exists: '' @ repr_route (to_route r)),
                  Ok ''Route accepts POST method''], Inr True)"
    if "vs = [r]" and "''POST'' |\<in>| rule_methods r" for r
    using that(1) post_accepted[OF that(2)] by (simp add: unfold)
  have get: "test_no_duplicate_verify_signature e
              = ([Test ''Issue #1: No duplicate /verify_signature routes'',
                  Ok (''Only ONE /verify_signature route exists: '' @ repr_route (to_route r)),
                  Fail ''Route does not accept POST: GET''], Inr False)"
    if "vs = [r]" and "rule_methods r |-| {|''HEAD'', ''OPTIONS''|} = {|''GET''|}" for r
    using that(1) get_only[OF that(2)] by (simp add: unfold sublist_Cons_right)
  have none: "test_no_duplicate_verify_signature e
              = ([Test ''Issue #1: No duplicate /verify_signature routes'',
                  Fail ''No /verify_signature route found!''], Inr False)"
    if "vs = []"
    using that by (simp add: unfold)
  have many: "test_no_duplicate_verify_signature e
              = (Test ''Issue #1: No duplicate /verify_signature routes''
                 # Fail (''Found '' @ str_nat (length vs) @ '' duplicate /verify_signature routes:'')
                 # map (\<lambda>r. Info (''  - '' @ rule_endpoint r @ '' '' @ methods (to_route r)
                                    @ '' '' @ rule_path r)) vs,
                 Inr False)"
    if "2 \<le> length vs"
    using that by (auto simp: unfold comp_def to_route_def)
  show ?thesis
    using post get none many by simp
qed

lemma route_env_imports:
  "import_flask_app (routes_env rules) = None" "iter_rules (routes_env rules) = Inr rules"
  by (simp_all add: routes_env_def)

lemma route_filters:
  "filter (\<lambda>r. rule_endpoint r \<noteq> ''static'' \<and> rule_path r = ''/verify_signature'')
     [static_rule, post_rule] = [post_rule]"
  "filter (\<lambda>r. rule_endpoint r \<noteq> ''static'' \<and> rule_path r = ''/verify_signature'')
     [static_rule, get_rule] = [get_rule]"
  "filter (\<lambda>r. rule_endpoint r \<noteq> ''static'' \<and> rule_path r = ''/verify_signature'')
     [static_rule] = []"
  "filter (\<lambda>r. rule_endpoint r \<noteq> ''static'' \<and> rule_path r = ''/verify_signature'')
     [get_rule, static_rule, post_rule] = [get_rule, post_rule]"
  by (simp_all add: static_rule_def post_rule_def get_rule_def)

lemma rule_method_sets:
  "''POST'' |\<in>| rule_methods post_rule"
  "rule_methods get_rule |-| {|''HEAD'', ''OPTIONS''|} = {|''GET''|}"
  by (auto simp: post_rule_def get_rule_def)

theorem route_table_rule_witness:
  "import_flask_app (routes_env [static_rule, post_rule]) = None
   \<and> iter_rules (routes_env [static_rule, post_rule]) = Inr [static_rule, post_rule]
   \<and> ''POST'' |\<in>| rule_methods post_rule
   \<and> test_no_duplicate_verify_signature (routes_env [static_rule, post_rule])
       = ([Test ''Issue #1: No duplicate /verify_signature routes'',
           Ok (''Only ONE /verify_signature route exists: '' @ repr_route (to_route post_rule)),
           Ok ''Route accepts POST method''], Inr True)
   \<and> rule_methods get_rule |-| {|''HEAD'', ''OPTIONS''|} = {|''GET''|}
   \<and> test_no_duplicate_verify_signature (routes_env [static_rule, get_rule])
       = ([Test ''Issue #1: No duplicate /verify_signature routes'',
           Ok (''Only ONE /verify_signature route exists: '' @ repr_route (to_route get_rule)),
           Fail ''Route does not accept POST: GET''], Inr False)
   \<and> test_no_duplicate_verify_signature (routes_env [static_rule])
       = ([Test ''Issue #1: No duplicate /verify_signature routes'',
           Fail ''No /verify_signature route found!''], Inr False)
   \<and> snd (test_no_duplicate_verify_signature (routes_env [get_rule, static_rule, post_rule]))
       = Inr False
   \<and> Fail ''Found 2 duplicate /verify_signature routes:''
       \<in> set (fst (test_no_duplicate_verify_signature
                      (routes_env [get_rule, static_rule, post_rule])))"
proof -
  note one = route_table_rule[OF route_env_imports route_filters(1) [symmetric]]
  note get = route_table_rule[OF route_env_imports route_filters(2) [symmetric]]
  note none = route_table_rule[OF route_env_imports route_filters(3) [symmetric]]
  note many = route_table_rule[OF route_env_imports route_filters(4) [symmetric]]
  have a: "test_no_duplicate_verify_signature (routes_env [static_rule, post_rule])
       = ([Test ''Issue #1: No duplicate /verify_signature routes'',
           Ok (''Only ONE /verify_signature route exists: '' @ repr_route (to_route post_rule)),
           Ok ''Route accepts POST method''], Inr True)"
    using one rule_method_sets(1) by blast
  have b: "test_no_duplicate_verify_signature (routes_env [static_rule, get_rule])
       = ([Test ''Issue #1: No duplicate /verify_signature routes'',
           Ok (''Only ONE /verify_signature route exists: '' @ repr_route (to_route get_rule)),
           Fail ''Route does not accept POST: GET''], Inr False)"
    using get rule_method_sets(2) by blast
  have c: "test_no_duplicate_verify_signature (routes_env [static_rule])
       = ([Test ''Issue #1: No duplicate /verify_signature routes'',
           Fail ''No /verify_signature route found!''], Inr False)"
    using none by blast
  have d: "snd (test_no_duplicate_verify_signature (routes_env [get_rule, static_rule, post_rule]))
       = Inr False
     \<and> Fail ''Found 2 duplicate /verify_signature routes:''
       \<in> set (fst (test_no_duplicate_verify_signature
                      (routes_env [get_rule, static_rule, post_rule])))"
  proof -
    have two: "str_nat (Suc (Suc 0)) = ''2''"
      using str_nat_digits(3) by (simp add: numeral_2_eq_2)
    show ?thesis
      using many by (simp add: two)
  qed
  show ?thesis
    using a b c d route_env_imports rule_method_sets by blast
qed

end
